theory Spec2Isabelle
  imports Main "HOL-Library.Sublist"
begin

section \<open>Python values, exceptions and string primitives\<close>

text \<open>
  Text is a list of bytes: an ASCII character is one \<open>char\<close>, a character beyond ASCII
  is the bytes of its UTF-8 encoding. The Korean literals of the source are written out
  byte by byte below.

  An exception is a value carrying its message; a function that may raise returns
  \<open>exn + 'a\<close> with \<open>Inl\<close> for the raise.
\<close>

datatype exn =
    ValidationError string
  | JSONDecodeError string
  | TypeError string
  | IndexError string
  | RuntimeError string

fun str_exn :: "exn \<Rightarrow> string" where
  "str_exn (ValidationError m) = m"
| "str_exn (JSONDecodeError m) = m"
| "str_exn (TypeError m) = m"
| "str_exn (IndexError m) = m"
| "str_exn (RuntimeError m) = m"

text \<open>
  The values that travel in task arguments, bound statement parameters and result rows:
  \<open>None\<close>, booleans, integers and strings. A value of another kind in a result row
  (a date, a decimal) only ever meets \<open>str()\<close> and is carried as the string it renders to.
\<close>

datatype pyval = PNone | PBool bool | PInt int | PStr string

fun truthy :: "pyval \<Rightarrow> bool" where
  "truthy PNone = False"
| "truthy (PBool b) = b"
| "truthy (PInt n) = (n \<noteq> 0)"
| "truthy (PStr s) = (s \<noteq> [])"

definition digit_char :: "nat \<Rightarrow> char" where
  "digit_char d = ''0123456789'' ! d"

fun str_nat :: "nat \<Rightarrow> string" where
  "str_nat n = (if n < 10 then [digit_char n] else str_nat (n div 10) @ [digit_char (n mod 10)])"

declare str_nat.simps [simp del]

definition str_int :: "int \<Rightarrow> string" where
  "str_int i = (if i < 0 then CHR ''-'' # str_nat (nat (- i)) else str_nat (nat i))"

fun py_str :: "pyval \<Rightarrow> string" where
  "py_str PNone = ''None''"
| "py_str (PBool b) = (if b then ''True'' else ''False'')"
| "py_str (PInt n) = str_int n"
| "py_str (PStr s) = s"

text \<open>\<open>sep.join(xs)\<close>.\<close>

fun join :: "string \<Rightarrow> string list \<Rightarrow> string" where
  "join sep [] = []"
| "join sep [x] = x"
| "join sep (x # y # ys) = x @ sep @ join sep (y # ys)"

definition nl :: string where
  "nl = [CHR 0x0A]"

text \<open>\<open>xs[:n]\<close> for an integer \<open>n\<close>: a negative bound counts from the end.\<close>

definition slice_to :: "'a list \<Rightarrow> int \<Rightarrow> 'a list" where
  "slice_to xs n = (if 0 \<le> n then take (nat n) xs else take (length xs - nat (- n)) xs)"

section \<open>agent-tools: formatting of result rows\<close>

text \<open>
  A result row is a Python dict from column name to value: an association list in
  insertion order, read with \<open>map_of\<close> (\<open>r.get(h, "")\<close>) and listed with \<open>map fst\<close>
  (\<open>r.keys()\<close>).
\<close>

type_synonym row = "(string \<times> pyval) list"

definition row_line :: "string list \<Rightarrow> row \<Rightarrow> string" where
  "row_line headers r =
     join '' | '' (map (\<lambda>h. py_str (case map_of r h of None \<Rightarrow> PStr [] | Some v \<Rightarrow> v)) headers)"

definition elision :: "int \<Rightarrow> string" where
  "elision k = ''...('' @ str_int k @ '' more)''"

definition format_rows :: "row list \<Rightarrow> int \<Rightarrow> exn + string" where
  "format_rows rows max_rows =
     (if rows = [] then Inr []
      else
        (case slice_to rows max_rows of
           [] \<Rightarrow> Inl (IndexError ''list index out of range'')
         | r0 # rest \<Rightarrow>
             (let sample = r0 # rest;
                  headers = map fst r0;
                  lines = [join '' | '' headers] @ map (row_line headers) sample;
                  lines' = (if int (length rows) > max_rows
                            then lines @ [elision (int (length rows) - max_rows)]
                            else lines)
              in Inr (join nl lines'))))"

section \<open>agent-tools: the row cap\<close>

text \<open>
  \<open>_limit_clause(limit, default)\<close>: \<open>limit or default\<close> keeps a truthy limit, \<open>min\<close>
  compares it with the default (a string against an integer raises \<open>TypeError\<close>; \<open>True\<close>
  is the integer 1 and is returned as itself), and the f-string renders the result.
\<close>

definition limit_clause :: "pyval \<Rightarrow> int \<Rightarrow> exn + string" where
  "limit_clause limit dflt =
     (let lim = (if truthy limit then limit else PInt dflt) in
      case lim of
        PInt n \<Rightarrow> Inr ('' LIMIT '' @ str_int (min n dflt))
      | PBool b \<Rightarrow> Inr ('' LIMIT '' @ py_str (if 1 \<le> dflt then PBool b else PInt dflt))
      | PStr s \<Rightarrow> Inl (TypeError ''not supported between instances of int and str'')
      | PNone \<Rightarrow> Inl (TypeError ''not supported between instances of int and NoneType''))"

section \<open>agent-tools: the tool registry\<close>

text \<open>
  The relational store and the helpers of \<open>rdb_service\<close> are outside the program.
  \<open>db_execute sql params\<close> stands for
  \<open>get_engine().connect()\<close>, \<open>conn.execute(text(sql), params).mappings().all()\<close> and the
  copy of each mapping into a dict: the rows, or the exception the driver raised.
  The bound parameters are the dict \<open>params\<close> in insertion order.
\<close>

type_synonym args = "(string \<times> pyval) list"

record rdb_env =
  db_execute :: "string \<Rightarrow> args \<Rightarrow> exn + row list"
  query_employee_contact_by_name :: "pyval \<Rightarrow> pyval \<Rightarrow> exn + row list"

definition get_my_todos ::
  "'e rdb_env_scheme \<Rightarrow> pyval \<Rightarrow> pyval \<Rightarrow> pyval \<Rightarrow> pyval \<Rightarrow> exn + row list" where
  "get_my_todos db emp_id com_id status limit =
     (let sql0 = ''SELECT todo_no, title, is_done, created_at, updated_at '' @
                 ''FROM todo_list WHERE com_id = :com_id AND emp_id = :emp_id'';
          params0 = [(''com_id'', com_id), (''emp_id'', emp_id)];
          sql1 = (if truthy status then sql0 @ '' AND is_done = :status'' else sql0);
          params1 = (if truthy status then params0 @ [(''status'', status)] else params0)
      in case limit_clause limit 50 of
           Inl e \<Rightarrow> Inl e
         | Inr lc \<Rightarrow> db_execute db (sql1 @ lc) params1)"

definition get_my_mails ::
  "'e rdb_env_scheme \<Rightarrow> pyval \<Rightarrow> pyval \<Rightarrow> pyval \<Rightarrow> pyval \<Rightarrow> exn + row list" where
  "get_my_mails db emp_id com_id unread_only limit =
     (let sql0 = ''SELECT mail_no, title, created_at, sender_id '' @
                 ''FROM mail WHERE sender_id = :emp_id'';
          params0 = [(''emp_id'', emp_id)]
      in case limit_clause limit 50 of
           Inl e \<Rightarrow> Inl e
         | Inr lc \<Rightarrow> db_execute db (sql0 @ lc) params0)"

definition get_my_attendance ::
  "'e rdb_env_scheme \<Rightarrow> pyval \<Rightarrow> pyval \<Rightarrow> pyval \<Rightarrow> pyval \<Rightarrow> exn + row list" where
  "get_my_attendance db emp_id com_id start end' =
     (let sql0 = ''SELECT day, type, created_at FROM attendance WHERE com_id = :com_id AND emp_id = :emp_id'';
          params0 = [(''com_id'', com_id), (''emp_id'', emp_id)];
          sql1 = (if truthy start then sql0 @ '' AND day >= :start'' else sql0);
          params1 = (if truthy start then params0 @ [(''start'', start)] else params0);
          sql2 = (if truthy end' then sql1 @ '' AND day <= :end'' else sql1);
          params2 = (if truthy end' then params1 @ [(''end'', end')] else params1)
      in case limit_clause PNone 50 of
           Inl e \<Rightarrow> Inl e
         | Inr lc \<Rightarrow> db_execute db (sql2 @ lc) params2)"

definition get_meetings_for_me ::
  "'e rdb_env_scheme \<Rightarrow> pyval \<Rightarrow> pyval \<Rightarrow> pyval \<Rightarrow> pyval \<Rightarrow> exn + row list" where
  "get_meetings_for_me db emp_id com_id start end' =
     (let sql0 = ''SELECT m.meet_no, m.title, m.started_at, m.status '' @
                 ''FROM meeting m JOIN meeting_emp me ON m.meet_no = me.meet_no '' @
                 ''WHERE m.com_id = :com_id AND me.emp_id = :emp_id'';
          params0 = [(''com_id'', com_id), (''emp_id'', emp_id)];
          sql1 = (if truthy start then sql0 @ '' AND m.started_at >= :start'' else sql0);
          params1 = (if truthy start then params0 @ [(''start'', start)] else params0);
          sql2 = (if truthy end' then sql1 @ '' AND m.started_at <= :end'' else sql1);
          params2 = (if truthy end' then params1 @ [(''end'', end')] else params1)
      in case limit_clause PNone 50 of
           Inl e \<Rightarrow> Inl e
         | Inr lc \<Rightarrow> db_execute db (sql2 @ lc) params2)"

definition get_meeting_room_reservations ::
  "'e rdb_env_scheme \<Rightarrow> pyval \<Rightarrow> pyval \<Rightarrow> exn + row list" where
  "get_meeting_room_reservations db com_id limit =
     (let sql0 = ''SELECT mr.room_no, r.room_name, mr.started_at, mr.ended_at, mr.resv_emp '' @
                 ''FROM meeting_room_reservation mr '' @
                 ''LEFT JOIN meeting_room r ON mr.room_no = r.room_no '' @
                 ''WHERE mr.com_id = :com_id '' @
                 ''ORDER BY mr.started_at DESC'';
          params0 = [(''com_id'', com_id)]
      in case limit_clause limit 50 of
           Inl e \<Rightarrow> Inl e
         | Inr lc \<Rightarrow> db_execute db (sql0 @ lc) params0)"

definition get_corporate_car_reservations ::
  "'e rdb_env_scheme \<Rightarrow> pyval \<Rightarrow> pyval \<Rightarrow> exn + row list" where
  "get_corporate_car_reservations db com_id limit =
     (let sql0 = ''SELECT cr.car_no, c.car_name, cr.started_at, cr.ended_at, cr.resv_emp '' @
                 ''FROM corporate_car_reservation cr '' @
                 ''LEFT JOIN corporate_car c ON cr.car_no = c.car_no '' @
                 ''WHERE cr.com_id = :com_id '' @
                 ''ORDER BY cr.started_at DESC'';
          params0 = [(''com_id'', com_id)]
      in case limit_clause limit 50 of
           Inl e \<Rightarrow> Inl e
         | Inr lc \<Rightarrow> db_execute db (sql0 @ lc) params0)"

definition get_shared_equipment_reservations ::
  "'e rdb_env_scheme \<Rightarrow> pyval \<Rightarrow> pyval \<Rightarrow> exn + row list" where
  "get_shared_equipment_reservations db com_id limit =
     (let sql0 = ''SELECT sr.eq_no, e.eq_name, sr.started_at, sr.ended_at, sr.resv_emp '' @
                 ''FROM shared_equipment_reservation sr '' @
                 ''LEFT JOIN shared_equipment e ON sr.eq_no = e.eq_no '' @
                 ''WHERE sr.com_id = :com_id '' @
                 ''ORDER BY sr.started_at DESC'';
          params0 = [(''com_id'', com_id)]
      in case limit_clause limit 50 of
           Inl e \<Rightarrow> Inl e
         | Inr lc \<Rightarrow> db_execute db (sql0 @ lc) params0)"

definition search_employee_by_name ::
  "'e rdb_env_scheme \<Rightarrow> pyval \<Rightarrow> pyval \<Rightarrow> pyval \<Rightarrow> exn + row list" where
  "search_employee_by_name db com_id name limit = query_employee_contact_by_name db name com_id"

definition get_employee_contact ::
  "'e rdb_env_scheme \<Rightarrow> pyval \<Rightarrow> pyval \<Rightarrow> exn + row list" where
  "get_employee_contact db com_id emp_id =
     db_execute db
       (''SELECT emp_name, email, phone, work_phone, emp_id, dep_no, pos_no '' @
        ''FROM employee WHERE com_id = :com_id AND emp_id = :emp_id LIMIT 5'')
       [(''com_id'', com_id), (''emp_id'', emp_id)]"

definition search_board_posts ::
  "'e rdb_env_scheme \<Rightarrow> pyval \<Rightarrow> pyval \<Rightarrow> pyval \<Rightarrow> exn + row list" where
  "search_board_posts db com_id keyword limit =
     (let sql0 = ''SELECT board_no, title, created_at, emp_id '' @
                 ''FROM board WHERE com_id = :com_id AND (title LIKE :kw OR contents LIKE :kw)'';
          params0 = [(''com_id'', com_id), (''kw'', PStr (''%'' @ py_str keyword @ ''%''))]
      in case limit_clause limit 50 of
           Inl e \<Rightarrow> Inl e
         | Inr lc \<Rightarrow> db_execute db (sql0 @ lc) params0)"

definition get_approval_lines ::
  "'e rdb_env_scheme \<Rightarrow> pyval \<Rightarrow> pyval \<Rightarrow> pyval \<Rightarrow> exn + row list" where
  "get_approval_lines db com_id emp_id limit =
     (let sql0 = ''SELECT apprl_no, doc_no, appr_stat, ended_at '' @
                 ''FROM approval_line WHERE com_id = :com_id AND emp_id = :emp_id '' @
                 ''ORDER BY ended_at DESC'';
          params0 = [(''com_id'', com_id), (''emp_id'', emp_id)]
      in case limit_clause limit 50 of
           Inl e \<Rightarrow> Inl e
         | Inr lc \<Rightarrow> db_execute db (sql0 @ lc) params0)"

text \<open>
  The registry maps a task name to a function object. A function object is one of the
  eleven tools; what the executor reads of it are its declared parameters (the required
  ones first, then the ones with a default) and the call.
\<close>

datatype tool =
    Get_my_todos | Get_my_mails | Get_my_attendance | Get_meetings_for_me
  | Get_meeting_room_reservations | Get_corporate_car_reservations
  | Get_shared_equipment_reservations | Search_employee_by_name
  | Get_employee_contact | Search_board_posts | Get_approval_lines

definition TOOL_REGISTRY :: "string \<Rightarrow> tool option" where
  "TOOL_REGISTRY = map_of
     [(''get_my_todos'', Get_my_todos),
      (''get_my_mails'', Get_my_mails),
      (''get_my_attendance'', Get_my_attendance),
      (''get_meetings_for_me'', Get_meetings_for_me),
      (''get_meeting_rooms_availability'', Get_meeting_room_reservations),
      (''get_corporate_car_availability'', Get_corporate_car_reservations),
      (''get_shared_equipment_availability'', Get_shared_equipment_reservations),
      (''search_employee_by_name'', Search_employee_by_name),
      (''get_employee_contact'', Get_employee_contact),
      (''search_board_posts'', Search_board_posts),
      (''get_approval_lines'', Get_approval_lines)]"

fun required_params :: "tool \<Rightarrow> string list" where
  "required_params Get_my_todos = [''emp_id'', ''com_id'']"
| "required_params Get_my_mails = [''emp_id'', ''com_id'']"
| "required_params Get_my_attendance = [''emp_id'', ''com_id'']"
| "required_params Get_meetings_for_me = [''emp_id'', ''com_id'']"
| "required_params Get_meeting_room_reservations = [''com_id'']"
| "required_params Get_corporate_car_reservations = [''com_id'']"
| "required_params Get_shared_equipment_reservations = [''com_id'']"
| "required_params Search_employee_by_name = [''com_id'', ''name'']"
| "required_params Get_employee_contact = [''com_id'', ''emp_id'']"
| "required_params Search_board_posts = [''com_id'', ''keyword'']"
| "required_params Get_approval_lines = [''com_id'', ''emp_id'']"

fun optional_params :: "tool \<Rightarrow> (string \<times> pyval) list" where
  "optional_params Get_my_todos = [(''status'', PNone), (''limit'', PNone)]"
| "optional_params Get_my_mails = [(''unread_only'', PBool False), (''limit'', PNone)]"
| "optional_params Get_my_attendance = [(''start'', PNone), (''end'', PNone)]"
| "optional_params Get_meetings_for_me = [(''start'', PNone), (''end'', PNone)]"
| "optional_params Get_meeting_room_reservations = [(''limit'', PNone)]"
| "optional_params Get_corporate_car_reservations = [(''limit'', PNone)]"
| "optional_params Get_shared_equipment_reservations = [(''limit'', PNone)]"
| "optional_params Search_employee_by_name = [(''limit'', PNone)]"
| "optional_params Get_employee_contact = []"
| "optional_params Search_board_posts = [(''limit'', PNone)]"
| "optional_params Get_approval_lines = [(''limit'', PNone)]"

text \<open>
  \<open>fn.__code__.co_varnames\<close> lists the parameters and then the local variables of the
  function. No tool has a local variable called \<open>com_id\<close> or \<open>emp_id\<close>, so for these two
  names membership is membership in the parameter list.
\<close>

definition declares :: "tool \<Rightarrow> string \<Rightarrow> bool" where
  "declares fn p = (p \<in> set (required_params fn @ map fst (optional_params fn)))"

text \<open>
  \<open>fn(**args)\<close>: a keyword the function does not declare, or a required parameter with
  no keyword, raises \<open>TypeError\<close> before the body runs; an absent optional parameter
  takes its default.
\<close>

definition param :: "tool \<Rightarrow> args \<Rightarrow> string \<Rightarrow> pyval" where
  "param fn a p =
     (case map_of a p of
        Some v \<Rightarrow> v
      | None \<Rightarrow> (case map_of (optional_params fn) p of Some d \<Rightarrow> d | None \<Rightarrow> PNone))"

definition call_tool :: "'e rdb_env_scheme \<Rightarrow> tool \<Rightarrow> args \<Rightarrow> exn + row list" where
  "call_tool db fn a =
     (if \<exists>k \<in> set (map fst a). \<not> declares fn k
        then Inl (TypeError ''got an unexpected keyword argument'')
      else if \<exists>r \<in> set (required_params fn). map_of a r = None
        then Inl (TypeError ''missing required positional argument'')
      else
        (case fn of
           Get_my_todos \<Rightarrow>
             get_my_todos db (param fn a ''emp_id'') (param fn a ''com_id'')
               (param fn a ''status'') (param fn a ''limit'')
         | Get_my_mails \<Rightarrow>
             get_my_mails db (param fn a ''emp_id'') (param fn a ''com_id'')
               (param fn a ''unread_only'') (param fn a ''limit'')
         | Get_my_attendance \<Rightarrow>
             get_my_attendance db (param fn a ''emp_id'') (param fn a ''com_id'')
               (param fn a ''start'') (param fn a ''end'')
         | Get_meetings_for_me \<Rightarrow>
             get_meetings_for_me db (param fn a ''emp_id'') (param fn a ''com_id'')
               (param fn a ''start'') (param fn a ''end'')
         | Get_meeting_room_reservations \<Rightarrow>
             get_meeting_room_reservations db (param fn a ''com_id'') (param fn a ''limit'')
         | Get_corporate_car_reservations \<Rightarrow>
             get_corporate_car_reservations db (param fn a ''com_id'') (param fn a ''limit'')
         | Get_shared_equipment_reservations \<Rightarrow>
             get_shared_equipment_reservations db (param fn a ''com_id'') (param fn a ''limit'')
         | Search_employee_by_name \<Rightarrow>
             search_employee_by_name db (param fn a ''com_id'') (param fn a ''name'')
               (param fn a ''limit'')
         | Get_employee_contact \<Rightarrow>
             get_employee_contact db (param fn a ''com_id'') (param fn a ''emp_id'')
         | Search_board_posts \<Rightarrow>
             search_board_posts db (param fn a ''com_id'') (param fn a ''keyword'')
               (param fn a ''limit'')
         | Get_approval_lines \<Rightarrow>
             get_approval_lines db (param fn a ''com_id'') (param fn a ''emp_id'')
               (param fn a ''limit'')))"

text \<open>
  The number that \<open>_limit_clause\<close> writes for an integer or absent limit, and the number
  in the \<open>LIMIT\<close> clause of the statement of each tool: the literal 5 of
  \<open>get_employee_contact\<close>, \<open>_limit_clause(None)\<close> for the two tools that take no limit,
  \<open>_limit_clause(limit)\<close> for the others.
\<close>

definition cap_of :: "pyval \<Rightarrow> int" where
  "cap_of v = (case v of PInt l \<Rightarrow> if l = 0 then 50 else min l 50 | _ \<Rightarrow> 50)"

definition tool_cap :: "tool \<Rightarrow> args \<Rightarrow> int" where
  "tool_cap fn a =
     (if fn = Get_employee_contact then 5
      else if fn = Get_my_attendance \<or> fn = Get_meetings_for_me then 50
      else cap_of (param fn a ''limit''))"

text \<open>
  What the relational store is taken to do with a \<open>LIMIT\<close> clause: for a statement
  that ends in \<open>LIMIT k\<close> with \<open>k\<close> not negative it returns at most \<open>k\<close> rows. Nothing
  is taken about a negative number.
\<close>

definition honours_limit :: "'e rdb_env_scheme \<Rightarrow> bool" where
  "honours_limit db =
     (\<forall>sql k ps rows. 0 \<le> k \<longrightarrow>
        db_execute db (sql @ '' LIMIT '' @ str_int k) ps = Inr rows \<longrightarrow> int (length rows) \<le> k)"

section \<open>agent-tools: the executor\<close>

text \<open>
  A task is an \<open>RdbTask\<close> or the dict made of it (\<open>t.dict()\<close>): a name and an
  argument dict. The tenant context is
  the pair \<open>com_id\<close>, \<open>emp_id\<close>, each a string or \<open>None\<close>; \<open>None\<close> and the empty string are
  falsy.
\<close>

record RdbTask =
  name :: string
  args :: args

text \<open>\<open>d.setdefault(k, v)\<close>: a key that is present keeps its value, whatever it is.\<close>

definition setdefault :: "args \<Rightarrow> string \<Rightarrow> pyval \<Rightarrow> args" where
  "setdefault a k v = (case map_of a k of None \<Rightarrow> a @ [(k, v)] | Some old \<Rightarrow> a)"

text \<open>The two guarded \<open>setdefault\<close> calls at the head of the \<open>try\<close> block.\<close>

definition inject_ids :: "tool \<Rightarrow> string option \<Rightarrow> string option \<Rightarrow> args \<Rightarrow> args" where
  "inject_ids fn com_id emp_id a =
     (let a1 = (case com_id of
                  Some c \<Rightarrow> if declares fn ''com_id'' \<and> c \<noteq> []
                            then setdefault a ''com_id'' (PStr c) else a
                | None \<Rightarrow> a);
          a2 = (case emp_id of
                  Some e \<Rightarrow> if declares fn ''emp_id'' \<and> e \<noteq> []
                            then setdefault a1 ''emp_id'' (PStr e) else a1
                | None \<Rightarrow> a1)
      in a2)"

definition summary_line :: "string \<Rightarrow> row list \<Rightarrow> string" where
  "summary_line n rows = n @ '': '' @ str_int (int (length rows)) @ '' rows''"

fun execute_loop ::
  "'e rdb_env_scheme \<Rightarrow> string option \<Rightarrow> string option \<Rightarrow> RdbTask list \<Rightarrow>
     row list \<times> string list \<Rightarrow> row list \<times> string list" where
  "execute_loop db com_id emp_id [] acc = acc"
| "execute_loop db com_id emp_id (t # ts) (all_rows, summaries) =
     (case TOOL_REGISTRY (name t) of
        None \<Rightarrow> execute_loop db com_id emp_id ts (all_rows, summaries)
      | Some fn \<Rightarrow>
          (case call_tool db fn (inject_ids fn com_id emp_id (args t)) of
             Inl e \<Rightarrow> execute_loop db com_id emp_id ts (all_rows, summaries)
           | Inr rows \<Rightarrow>
               execute_loop db com_id emp_id ts
                 (all_rows @ rows, summaries @ [summary_line (name t) rows])))"

definition execute_rdb_tasks ::
  "'e rdb_env_scheme \<Rightarrow> RdbTask list \<Rightarrow> string option \<Rightarrow> string option \<Rightarrow>
     exn + row list \<times> string list" where
  "execute_rdb_tasks db tasks com_id emp_id = Inr (execute_loop db com_id emp_id tasks ([], []))"

section \<open>The literals of the prompts\<close>

text \<open>Each constant is the UTF-8 encoding of the literal of the source.\<close>

definition prev_dialog_tag :: string where
  \<comment> \<open>the heading of the rendered history, with its newline\<close>
  "prev_dialog_tag =
     [
      CHR 0x5B, CHR 0xEC, CHR 0x9D, CHR 0xB4, CHR 0xEC, CHR 0xA0, CHR 0x84, CHR 0x20,
      CHR 0xEB, CHR 0x8C, CHR 0x80, CHR 0xED, CHR 0x99, CHR 0x94, CHR 0x5D, CHR 0x0A]"

definition cur_question_tag :: string where
  \<comment> \<open>the heading of the current question in the planner prompt\<close>
  "cur_question_tag =
     [
      CHR 0x5B, CHR 0xED, CHR 0x98, CHR 0x84, CHR 0xEC, CHR 0x9E, CHR 0xAC, CHR 0x20,
      CHR 0xEC, CHR 0xA7, CHR 0x88, CHR 0xEB, CHR 0xAC, CHR 0xB8, CHR 0x5D, CHR 0x0A]"

definition synth_instructions :: string where
  \<comment> \<open>the grounding instructions: the two literal lines that open the synthesizer prompt\<close>
  "synth_instructions =
     [
      CHR 0xEC, CHR 0x95, CHR 0x84, CHR 0xEB, CHR 0x9E, CHR 0x98, CHR 0x20, CHR 0x44,
      CHR 0x42, CHR 0x20, CHR 0xEA, CHR 0xB2, CHR 0xB0, CHR 0xEA, CHR 0xB3, CHR 0xBC,
      CHR 0xEC, CHR 0x99, CHR 0x80, CHR 0x20, CHR 0xEA, CHR 0xB7, CHR 0x9C, CHR 0xEC,
      CHR 0xA0, CHR 0x95, CHR 0x20, CHR 0xEA, CHR 0xB7, CHR 0xBC, CHR 0xEA, CHR 0xB1,
      CHR 0xB0, CHR 0xEB, CHR 0xA5, CHR 0xBC, CHR 0x20, CHR 0xED, CHR 0x99, CHR 0x9C,
      CHR 0xEC, CHR 0x9A, CHR 0xA9, CHR 0xED, CHR 0x95, CHR 0xB4, CHR 0x20, CHR 0xED,
      CHR 0x95, CHR 0x9C, CHR 0xEA, CHR 0xB5, CHR 0xAD, CHR 0xEC, CHR 0x96, CHR 0xB4,
      CHR 0xEB, CHR 0xA1, CHR 0x9C, CHR 0x20, CHR 0xEA, CHR 0xB0, CHR 0x84, CHR 0xEA,
      CHR 0xB2, CHR 0xB0, CHR 0xED, CHR 0x95, CHR 0x98, CHR 0xEA, CHR 0xB3, CHR 0xA0,
      CHR 0x20, CHR 0xEC, CHR 0xA0, CHR 0x95, CHR 0xED, CHR 0x99, CHR 0x95, CHR 0xED,
      CHR 0x95, CHR 0x98, CHR 0xEA, CHR 0xB2, CHR 0x8C, CHR 0x20, CHR 0xEB, CHR 0x8B,
      CHR 0xB5, CHR 0xEB, CHR 0xB3, CHR 0x80, CHR 0xED, CHR 0x95, CHR 0x98, CHR 0xEC,
      CHR 0x84, CHR 0xB8, CHR 0xEC, CHR 0x9A, CHR 0x94, CHR 0x2E, CHR 0x20, CHR 0x44,
      CHR 0x42, CHR 0xEB, CHR 0x8A, CHR 0x94, CHR 0x20, CHR 0xEC, CHR 0x82, CHR 0xAC,
      CHR 0xEC, CHR 0x8B, CHR 0xA4, CHR 0x20, CHR 0xEB, CHR 0x8D, CHR 0xB0, CHR 0xEC,
      CHR 0x9D, CHR 0xB4, CHR 0xED, CHR 0x84, CHR 0xB0, CHR 0x2C, CHR 0x20, CHR 0x52,
      CHR 0x41, CHR 0x47, CHR 0xEB, CHR 0x8A, CHR 0x94, CHR 0x20, CHR 0xEA, CHR 0xB7,
      CHR 0x9C, CHR 0xEC, CHR 0xA0, CHR 0x95, CHR 0x2F, CHR 0xEC, CHR 0xA0, CHR 0x95,
      CHR 0xEC, CHR 0xB1, CHR 0x85, CHR 0x20, CHR 0xEA, CHR 0xB7, CHR 0xBC, CHR 0xEA,
      CHR 0xB1, CHR 0xB0, CHR 0xEC, CHR 0x9E, CHR 0x85, CHR 0xEB, CHR 0x8B, CHR 0x88,
      CHR 0xEB, CHR 0x8B, CHR 0xA4, CHR 0x2E, CHR 0x20, CHR 0xEC, CHR 0xA0, CHR 0x95,
      CHR 0xEB, CHR 0xB3, CHR 0xB4, CHR 0xEA, CHR 0xB0, CHR 0x80, CHR 0x20, CHR 0xEC,
      CHR 0x97, CHR 0x86, CHR 0xEC, CHR 0x9C, CHR 0xBC, CHR 0xEB, CHR 0xA9, CHR 0xB4,
      CHR 0x20, CHR 0xEB, CHR 0xAA, CHR 0xA8, CHR 0xEB, CHR 0xA5, CHR 0xB8, CHR 0xEB,
      CHR 0x8B, CHR 0xA4, CHR 0xEA, CHR 0xB3, CHR 0xA0, CHR 0x20, CHR 0xEB, CHR 0xA7,
      CHR 0x90, CHR 0xED, CHR 0x95, CHR 0x98, CHR 0xEC, CHR 0x84, CHR 0xB8, CHR 0xEC,
      CHR 0x9A, CHR 0x94, CHR 0x2E, CHR 0x20]"

definition style_prefix :: string where
  \<comment> \<open>the label of the style hint\<close>
  "style_prefix =
     [
      CHR 0xEB, CHR 0x8B, CHR 0xB5, CHR 0xEB, CHR 0xB3, CHR 0x80, CHR 0x20, CHR 0xEC,
      CHR 0x8A, CHR 0xA4, CHR 0xED, CHR 0x83, CHR 0x80, CHR 0xEC, CHR 0x9D, CHR 0xBC,
      CHR 0x3A, CHR 0x20]"

definition question_tag :: string where
  \<comment> \<open>the heading of the question in the synthesizer prompt\<close>
  "question_tag =
     [
      CHR 0x5B, CHR 0xEC, CHR 0xA7, CHR 0x88, CHR 0xEB, CHR 0xAC, CHR 0xB8, CHR 0x5D,
      CHR 0x0A]"

definition db_tag :: string where
  \<comment> \<open>the heading of the relational evidence\<close>
  "db_tag =
     [
      CHR 0x5B, CHR 0x44, CHR 0x42, CHR 0x20, CHR 0xEA, CHR 0xB2, CHR 0xB0, CHR 0xEA,
      CHR 0xB3, CHR 0xBC, CHR 0x5D, CHR 0x0A]"

definition rag_tag :: string where
  \<comment> \<open>the heading of the semantic evidence\<close>
  "rag_tag =
     [
      CHR 0x5B, CHR 0xEA, CHR 0xB7, CHR 0x9C, CHR 0xEC, CHR 0xA0, CHR 0x95, CHR 0x20,
      CHR 0xEA, CHR 0xB7, CHR 0xBC, CHR 0xEA, CHR 0xB1, CHR 0xB0, CHR 0x5D, CHR 0x0A]"

definition none_placeholder :: string where
  \<comment> \<open>the placeholder for an empty evidence text\<close>
  "none_placeholder =
     [
      CHR 0x28, CHR 0xEC, CHR 0x97, CHR 0x86, CHR 0xEC, CHR 0x9D, CHR 0x8C, CHR 0x29]"

definition refusal_msg :: string where
  \<comment> \<open>the fixed refusal chunk\<close>
  "refusal_msg =
     [
      CHR 0xEA, CHR 0xB7, CHR 0xBC, CHR 0xEA, CHR 0xB1, CHR 0xB0, CHR 0xEC, CHR 0x99,
      CHR 0x80, CHR 0x20, CHR 0xEB, CHR 0x8D, CHR 0xB0, CHR 0xEC, CHR 0x9D, CHR 0xB4,
      CHR 0xED, CHR 0x84, CHR 0xB0, CHR 0xEA, CHR 0xB0, CHR 0x80, CHR 0x20, CHR 0xEB,
      CHR 0xB6, CHR 0x80, CHR 0xEC, CHR 0xA1, CHR 0xB1, CHR 0xED, CHR 0x95, CHR 0xB4,
      CHR 0x20, CHR 0xEB, CHR 0x8B, CHR 0xB5, CHR 0xEB, CHR 0xB3, CHR 0x80, CHR 0xED,
      CHR 0x95, CHR 0xA0, CHR 0x20, CHR 0xEC, CHR 0x88, CHR 0x98, CHR 0x20, CHR 0xEC,
      CHR 0x97, CHR 0x86, CHR 0xEC, CHR 0x8A, CHR 0xB5, CHR 0xEB, CHR 0x8B, CHR 0x88,
      CHR 0xEB, CHR 0x8B, CHR 0xA4, CHR 0x2E, CHR 0x0A]"

section \<open>History rendering\<close>

text \<open>
  A history turn has a role and a content. \<open>lower()\<close> acts on the ASCII letters, which
  is all that the test \<open>startswith("user")\<close> can see.
\<close>

record turn =
  role :: string
  content :: string

definition lower_char :: "char \<Rightarrow> char" where
  "lower_char c =
     (case map_of (zip ''ABCDEFGHIJKLMNOPQRSTUVWXYZ'' ''abcdefghijklmnopqrstuvwxyz'') c of
        Some d \<Rightarrow> d
      | None \<Rightarrow> c)"

definition lower :: "string \<Rightarrow> string" where
  "lower s = map lower_char s"

definition turn_line :: "turn \<Rightarrow> string" where
  "turn_line m =
     (if prefix ''user'' (lower (role m)) then ''User'' else ''Assistant'') @ '': '' @ content m"

text \<open>\<open>_history_to_text\<close> of the synthesizer and of the orchestrator (the same text).\<close>

definition history_to_text :: "turn list \<Rightarrow> string" where
  "history_to_text history = (if history = [] then [] else join nl (map turn_line history))"

text \<open>\<open>_history_to_text\<close> of the planner: a turn with no content is left out.\<close>

definition planner_history_to_text :: "turn list \<Rightarrow> string" where
  "planner_history_to_text history =
     (if history = [] then []
      else join nl (map turn_line (filter (\<lambda>m. content m \<noteq> []) history)))"

section \<open>agent-planner\<close>

datatype plan_mode = Rdb | Rag | Hybrid

record RagTask =
  query :: string
  top_k :: int

record QueryPlan =
  mode :: plan_mode
  rag_tasks :: "RagTask list"
  rdb_tasks :: "RdbTask list"
  answer_style :: "string option"

text \<open>What \<open>json.loads\<close> returns (numbers are the integers).\<close>

datatype json =
    JNull | JBool bool | JInt int | JStr string
  | JArr "json list" | JObj "(string \<times> json) list"

text \<open>
  The collaborators of the planner: the chat completion of the planning model, from the
  user block to the content of the first choice (\<open>None\<close> when the message has none) or
  the exception of the call; \<open>json.loads\<close>; and the validating constructor
  \<open>QueryPlan(**plan_dict)\<close>. The system prompt is a fixed literal and is left out of the
  call.
\<close>

record planner_env = rdb_env +
  plan_completion :: "string \<Rightarrow> exn + string option"
  json_loads :: "string \<Rightarrow> exn + json"
  QueryPlan_of :: "json \<Rightarrow> exn + QueryPlan"

text \<open>\<open>QueryPlan(mode="rag", rag_tasks=[RagTask(query=question)])\<close>, defaults filled in.\<close>

definition default_plan :: "string \<Rightarrow> QueryPlan" where
  "default_plan question =
     \<lparr>mode = Rag, rag_tasks = [\<lparr>query = question, top_k = 5\<rparr>], rdb_tasks = [],
      answer_style = None\<rparr>"

text \<open>The two \<open>except\<close> clauses of \<open>plan_query\<close>, in their order.\<close>

fun plan_handler :: "string \<Rightarrow> exn \<Rightarrow> exn + QueryPlan" where
  "plan_handler question (ValidationError m) = Inr (default_plan question)"
| "plan_handler question (JSONDecodeError m) = Inr (default_plan question)"
| "plan_handler question e = Inr (default_plan question)"

definition user_block :: "string \<Rightarrow> turn list \<Rightarrow> string" where
  "user_block question history =
     (let history_text = planner_history_to_text history in
      if history_text \<noteq> []
      then prev_dialog_tag @ history_text @ nl @ nl @ cur_question_tag @ question
      else question)"

text \<open>\<open>resp.choices[0].message.content or "{}"\<close>.\<close>

definition or_empty_object :: "string option \<Rightarrow> string" where
  "or_empty_object c = (case c of None \<Rightarrow> ''{}'' | Some s \<Rightarrow> if s = [] then ''{}'' else s)"

definition plan_query ::
  "'e planner_env_scheme \<Rightarrow> string \<Rightarrow> turn list \<Rightarrow> string option \<Rightarrow> string option \<Rightarrow>
     exn + QueryPlan" where
  "plan_query env question history emp_id com_id =
     (case plan_completion env (user_block question history) of
        Inl e \<Rightarrow> plan_handler question e
      | Inr c \<Rightarrow>
          (let raw = or_empty_object c in
           case json_loads env raw of
             Inl e \<Rightarrow> plan_handler question e
           | Inr plan_dict \<Rightarrow>
               (case QueryPlan_of env plan_dict of
                  Inl e \<Rightarrow> plan_handler question e
                | Inr p \<Rightarrow> Inr p)))"

section \<open>agent-synthesizer\<close>

text \<open>
  The collaborators of the synthesizer, each from the user prompt (the system message
  is a fixed literal). The streaming completion either fails to establish, or yields
  the \<open>delta.content\<close> of its chunks in order (\<open>None\<close> for a chunk with none) and then
  ends or raises in mid-stream. The plain completion gives the content of the first
  choice, or raises.
\<close>

record synth_env = planner_env +
  stream_completion :: "string \<Rightarrow> exn + (string option list \<times> exn option)"
  full_completion :: "string \<Rightarrow> exn + string option"

text \<open>
  The prompt. In the source the literals are adjacent string literals around a
  conditional expression; adjacency binds tighter than \<open>if ... else\<close>, so the literals
  before \<open>if history_text\<close> form the first branch and the ones after \<open>else\<close> the second.
\<close>

definition style_hint :: "string option \<Rightarrow> string" where
  "style_hint answer_style' =
     (case answer_style' of
        None \<Rightarrow> []
      | Some a \<Rightarrow> if a \<noteq> [] then style_prefix @ a else [])"

definition or_placeholder :: "string \<Rightarrow> string" where
  "or_placeholder t = (if t \<noteq> [] then t else none_placeholder)"

definition user_prompt ::
  "string \<Rightarrow> turn list \<Rightarrow> string \<Rightarrow> string \<Rightarrow> string option \<Rightarrow> string" where
  "user_prompt question history db_text rag_text answer_style' =
     (let history_text = history_to_text history in
      if history_text \<noteq> []
      then synth_instructions @ style_hint answer_style' @ nl @ nl @
           prev_dialog_tag @ history_text @ nl @ nl
      else [] @
           question_tag @ question @ nl @ nl @
           db_tag @ or_placeholder db_text @ nl @ nl @
           rag_tag @ or_placeholder rag_text)"

text \<open>\<open>full.split("\n\n")\<close>, scanning from the left.\<close>

fun split_blank :: "string \<Rightarrow> string \<Rightarrow> string list" where
  "split_blank acc [] = [acc]"
| "split_blank acc [c] = [acc @ [c]]"
| "split_blank acc (c # d # cs) =
     (if c = CHR 0x0A \<and> d = CHR 0x0A then acc # split_blank [] cs
      else split_blank (acc @ [c]) (d # cs))"

text \<open>
  \<open>strip()\<close> removes the whitespace characters of Unicode from both ends: the 29
  characters for which \<open>isspace()\<close> holds, here each as its UTF-8 encoding (U+0009 to
  U+000D, U+001C to U+0020, U+0085, U+00A0, U+1680, U+2000 to U+200A, U+2028, U+2029,
  U+202F, U+205F, U+3000). In well-formed UTF-8 a character starts only at a lead byte,
  so removing encodings from the ends of the bytes removes the characters.
\<close>

definition whitespace :: "string list" where
  "whitespace =
     [
      [CHR 0x09], [CHR 0x0A], [CHR 0x0B], [CHR 0x0C],
      [CHR 0x0D], [CHR 0x1C], [CHR 0x1D], [CHR 0x1E],
      [CHR 0x1F], [CHR 0x20], [CHR 0xC2, CHR 0x85], [CHR 0xC2, CHR 0xA0],
      [CHR 0xE1, CHR 0x9A, CHR 0x80], [CHR 0xE2, CHR 0x80, CHR 0x80], [CHR 0xE2, CHR 0x80, CHR 0x81], [CHR 0xE2, CHR 0x80, CHR 0x82],
      [CHR 0xE2, CHR 0x80, CHR 0x83], [CHR 0xE2, CHR 0x80, CHR 0x84], [CHR 0xE2, CHR 0x80, CHR 0x85], [CHR 0xE2, CHR 0x80, CHR 0x86],
      [CHR 0xE2, CHR 0x80, CHR 0x87], [CHR 0xE2, CHR 0x80, CHR 0x88], [CHR 0xE2, CHR 0x80, CHR 0x89], [CHR 0xE2, CHR 0x80, CHR 0x8A],
      [CHR 0xE2, CHR 0x80, CHR 0xA8], [CHR 0xE2, CHR 0x80, CHR 0xA9], [CHR 0xE2, CHR 0x80, CHR 0xAF], [CHR 0xE2, CHR 0x81, CHR 0x9F],
      [CHR 0xE3, CHR 0x80, CHR 0x80]]"

text \<open>The length of the first listed sequence that the text starts with; 0 when none.\<close>

definition space_at_head :: "string list \<Rightarrow> string \<Rightarrow> nat" where
  "space_at_head seqs s = (case filter (\<lambda>w. prefix w s) seqs of [] \<Rightarrow> 0 | w # ws \<Rightarrow> length w)"

function lstrip_by :: "string list \<Rightarrow> string \<Rightarrow> string" where
  "lstrip_by seqs s =
     (if space_at_head seqs s = 0 then s
      else lstrip_by seqs (drop (space_at_head seqs s) s))"
  by pat_completeness auto
termination
proof (relation "measure (\<lambda>(seqs, s). length s)")
  show "wf (measure (\<lambda>(seqs, s). length s))" by simp
next
  fix seqs :: "string list" and s :: string
  assume n: "space_at_head seqs s \<noteq> 0"
  then obtain w ws where f: "filter (\<lambda>w. prefix w s) seqs = w # ws" and l: "w \<noteq> []"
    by (auto simp: space_at_head_def split: list.splits)
  from f have "w \<in> set (filter (\<lambda>w. prefix w s) seqs)" by simp
  then have "prefix w s" by simp
  with l have "s \<noteq> []" by auto
  with n show "((seqs, drop (space_at_head seqs s) s), (seqs, s)) \<in> measure (\<lambda>(seqs, s). length s)"
    by simp
qed

declare lstrip_by.simps [simp del]

definition strip :: "string \<Rightarrow> string" where
  "strip s = rev (lstrip_by (map rev whitespace) (rev (lstrip_by whitespace s)))"

definition paragraphs :: "string \<Rightarrow> string list" where
  "paragraphs full = map (\<lambda>part. part @ nl) (filter (\<lambda>part. part \<noteq> []) (map strip (split_blank [] full)))"

text \<open>
  A generator is the list of the values it yields and then how it stops: it returns
  (\<open>None\<close>) or it raises. The consumer takes the values one at a time and meets the
  exception only after it has taken them all.
\<close>

type_synonym 'a generator = "'a list \<times> exn option"

text \<open>The \<open>except\<close> block of \<open>stream_final_answer\<close>: the non-streaming call.\<close>

definition fallback_answer :: "'e synth_env_scheme \<Rightarrow> string \<Rightarrow> string generator" where
  "fallback_answer env prompt =
     (case full_completion env prompt of
        Inl e \<Rightarrow> ([], Some e)
      | Inr c \<Rightarrow> (paragraphs (case c of None \<Rightarrow> [] | Some full \<Rightarrow> full), None))"

text \<open>The loop over the stream: \<open>if delta: yield delta\<close>.\<close>

definition yielded :: "string option list \<Rightarrow> string list" where
  "yielded deltas =
     concat (map (\<lambda>delta. case delta of
                             None \<Rightarrow> []
                           | Some d \<Rightarrow> if d \<noteq> [] then [d] else []) deltas)"

text \<open>
  The \<open>try\<close> block holds the streaming call and the loop over its chunks, so the
  \<open>except\<close> block runs on either failure, after the deltas already yielded.
\<close>

definition stream_final_answer ::
  "'e synth_env_scheme \<Rightarrow> string \<Rightarrow> turn list \<Rightarrow> string \<Rightarrow> string \<Rightarrow> string option \<Rightarrow>
     plan_mode \<Rightarrow> string generator" where
  "stream_final_answer env question history db_text rag_text answer_style' md =
     (let prompt = user_prompt question history db_text rag_text answer_style' in
      case stream_completion env prompt of
        Inl e \<Rightarrow> fallback_answer env prompt
      | Inr (deltas, stop) \<Rightarrow>
          (case stop of
             None \<Rightarrow> (yielded deltas, None)
           | Some e \<Rightarrow>
               (let fb = fallback_answer env prompt in (yielded deltas @ fst fb, snd fb))))"

section \<open>chatbot-service: the orchestrator\<close>

text \<open>
  The request, and the callback payloads. A payload is a dict with the keys
  \<open>messageId\<close>, \<open>done\<close>, \<open>success\<close> and, on some events, \<open>chunk\<close> or \<open>errorMessage\<close>; an
  absent key is \<open>None\<close>.
\<close>

record request =
  question :: string
  history :: "turn list"
  empId :: "string option"
  comId :: "string option"
  messageId :: string
  callbackUrl :: string
  callbackKey :: string

record event =
  msg_id :: string
  chunk :: "string option"
  is_done :: bool
  success :: bool
  errorMessage :: "string option"

text \<open>
  The remaining collaborators. The retrieval search and the free-form relational query
  return their result or raise. \<open>validate_callback_url\<close> returns the URL to use or
  raises. \<open>post_with_retry\<close> belongs to the callback client: a call returns, and the
  event is then delivered, or it raises after its retries; \<open>post_outcome\<close> gives which,
  for the n-th call of the request (counted from 0), the URL, the key and the payload.
\<close>

record env = synth_env +
  search_prov_chunks :: "string \<Rightarrow> int \<Rightarrow> exn + string list"
  query_db_with_llm :: "string \<Rightarrow> string option \<Rightarrow> string option \<Rightarrow> exn + row list"
  validate_callback_url :: "string \<Rightarrow> exn + string"
  post_outcome :: "nat \<Rightarrow> string \<Rightarrow> string \<Rightarrow> event \<Rightarrow> exn option"

text \<open>The state of the callback channel: calls made so far, events delivered so far.\<close>

record channel =
  attempts :: nat
  delivered :: "event list"

definition post_with_retry ::
  "env \<Rightarrow> string \<Rightarrow> string \<Rightarrow> event \<Rightarrow> channel \<Rightarrow> (exn + unit) \<times> channel" where
  "post_with_retry env url key ev ch =
     (case post_outcome env (attempts ch) url key ev of
        None \<Rightarrow> (Inr (), \<lparr>attempts = Suc (attempts ch), delivered = delivered ch @ [ev]\<rparr>)
      | Some e \<Rightarrow> (Inl e, \<lparr>attempts = Suc (attempts ch), delivered = delivered ch\<rparr>))"

definition chunk_event :: "string \<Rightarrow> string \<Rightarrow> event" where
  "chunk_event mid delta =
     \<lparr>msg_id = mid, chunk = Some delta, is_done = False, success = True, errorMessage = None\<rparr>"

definition done_event :: "string \<Rightarrow> event" where
  "done_event mid =
     \<lparr>msg_id = mid, chunk = None, is_done = True, success = True, errorMessage = None\<rparr>"

definition error_event :: "string \<Rightarrow> string \<Rightarrow> event" where
  "error_event mid err_msg =
     \<lparr>msg_id = mid, chunk = None, is_done = True, success = False, errorMessage = Some err_msg\<rparr>"

text \<open>\<open>_run_rag_tasks\<close>: a search that raises contributes nothing.\<close>

fun rag_loop :: "env \<Rightarrow> RagTask list \<Rightarrow> string list \<Rightarrow> string list" where
  "rag_loop env [] contexts = contexts"
| "rag_loop env (t # ts) contexts =
     (case search_prov_chunks env (query t) (top_k t) of
        Inl e \<Rightarrow> rag_loop env ts contexts
      | Inr res \<Rightarrow> rag_loop env ts (contexts @ res))"

definition run_rag_tasks :: "env \<Rightarrow> RagTask list \<Rightarrow> string \<Rightarrow> string list" where
  "run_rag_tasks env rag_tasks' q =
     (let tasks = (if rag_tasks' = [] then [\<lparr>query = q, top_k = 5\<rparr>] else rag_tasks')
      in rag_loop env tasks [])"

text \<open>The gathering steps of \<open>run_chatbot\<close>, up to the two evidence lists.\<close>

definition gather :: "env \<Rightarrow> request \<Rightarrow> QueryPlan \<Rightarrow> exn + row list \<times> string list" where
  "gather env req plan =
     (case (if mode plan \<in> {Rdb, Hybrid}
            then (case execute_rdb_tasks env (rdb_tasks plan) (comId req) (empId req) of
                    Inl e \<Rightarrow> Inl e
                  | Inr (rows, summaries) \<Rightarrow>
                      if rows = [] \<and> mode plan = Rdb
                      then (case query_db_with_llm env (question req) (comId req) (empId req) of
                              Inl e \<Rightarrow> Inr rows
                            | Inr r \<Rightarrow> Inr r)
                      else Inr rows)
            else Inr [])
      of
        Inl e \<Rightarrow> Inl e
      | Inr db_rows1 \<Rightarrow>
          (let rag1 = (if mode plan \<in> {Rag, Hybrid}
                       then run_rag_tasks env (rag_tasks plan) (question req) else []);
               db_rows2 = (if db_rows1 = [] \<and> mode plan = Hybrid
                           then (case query_db_with_llm env (question req) (comId req) (empId req) of
                                   Inl e \<Rightarrow> db_rows1
                                 | Inr r \<Rightarrow> r)
                           else db_rows1);
               rag2 = (if rag1 = [] \<and> mode plan = Hybrid
                       then run_rag_tasks env [] (question req) else rag1)
           in Inr (db_rows2, rag2)))"

text \<open>The delivery loop \<open>for delta in stream\<close>: the first post that raises ends it.\<close>

fun deliver_chunks ::
  "env \<Rightarrow> string \<Rightarrow> string \<Rightarrow> string \<Rightarrow> string list \<Rightarrow> channel \<Rightarrow> (exn + unit) \<times> channel" where
  "deliver_chunks env url key mid [] ch = (Inr (), ch)"
| "deliver_chunks env url key mid (delta # rest) ch =
     (case post_with_retry env url key (chunk_event mid delta) ch of
        (Inl e, ch') \<Rightarrow> (Inl e, ch')
      | (Inr u, ch') \<Rightarrow> deliver_chunks env url key mid rest ch')"

text \<open>
  The first part of the \<open>try\<close> block of \<open>run_chatbot\<close>: the plan, the gathered evidence
  and its two texts. The history preview and the other \<open>print\<close> calls write to the
  console only and are left out.
\<close>

definition evidence :: "env \<Rightarrow> request \<Rightarrow> exn + QueryPlan \<times> string \<times> string" where
  "evidence env req =
     (case plan_query env (question req) (history req) (empId req) (comId req) of
        Inl e \<Rightarrow> Inl e
      | Inr plan \<Rightarrow>
          (case gather env req plan of
             Inl e \<Rightarrow> Inl e
           | Inr (db_rows, rag_contexts) \<Rightarrow>
               (case format_rows db_rows 10 of
                  Inl e \<Rightarrow> Inl e
                | Inr db_text \<Rightarrow> Inr (plan, db_text, join nl rag_contexts))))"

text \<open>The body of the \<open>try\<close> block of \<open>run_chatbot\<close>.\<close>

definition run_body :: "env \<Rightarrow> request \<Rightarrow> string \<Rightarrow> channel \<Rightarrow> (exn + unit) \<times> channel" where
  "run_body env req url ch =
     (case evidence env req of
        Inl e \<Rightarrow> (Inl e, ch)
      | Inr (plan, db_text, rag_text) \<Rightarrow>
          if db_text = [] \<and> rag_text = []
          then
            (case post_with_retry env url (callbackKey req)
                    (chunk_event (messageId req) refusal_msg) ch of
               (Inl e, ch1) \<Rightarrow> (Inl e, ch1)
             | (Inr u, ch1) \<Rightarrow>
                 post_with_retry env url (callbackKey req) (done_event (messageId req)) ch1)
          else
            (let stream = stream_final_answer env (question req) (history req) db_text rag_text
                            (answer_style plan) (mode plan)
             in case deliver_chunks env url (callbackKey req) (messageId req) (fst stream) ch of
                  (Inl e, ch1) \<Rightarrow> (Inl e, ch1)
                | (Inr u, ch1) \<Rightarrow>
                    (case snd stream of
                       Some e \<Rightarrow> (Inl e, ch1)
                     | None \<Rightarrow>
                         post_with_retry env url (callbackKey req)
                           (done_event (messageId req)) ch1)))"

text \<open>
  \<open>run_chatbot\<close>: the validation stands before the \<open>try\<close>, so its exception leaves the
  function; an exception of the body is answered by one post of the error event, whose
  own failure is swallowed. The result is how the call ends and the events delivered.
\<close>

definition run_chatbot :: "env \<Rightarrow> request \<Rightarrow> (exn + unit) \<times> event list" where
  "run_chatbot env req =
     (case validate_callback_url env (callbackUrl req) of
        Inl e \<Rightarrow> (Inl e, [])
      | Inr callback_url \<Rightarrow>
          (case run_body env req callback_url \<lparr>attempts = 0, delivered = []\<rparr> of
             (Inr u, ch) \<Rightarrow> (Inr (), delivered ch)
           | (Inl e, ch) \<Rightarrow>
               (case post_with_retry env callback_url (callbackKey req)
                       (error_event (messageId req) (str_exn e)) ch of
                  (Inl cb_err, ch') \<Rightarrow> (Inr (), delivered ch')
                | (Inr u, ch') \<Rightarrow> (Inr (), delivered ch'))))"

text \<open>
  The chunks of a request in emission order: the refusal chunk of the early exit, or
  what the synthesizer yields; none when the evidence could not be computed.
\<close>

definition emitted_chunks :: "env \<Rightarrow> request \<Rightarrow> string list" where
  "emitted_chunks env req =
     (case evidence env req of
        Inl e \<Rightarrow> []
      | Inr (plan, db_text, rag_text) \<Rightarrow>
          if db_text = [] \<and> rag_text = [] then [refusal_msg]
          else fst (stream_final_answer env (question req) (history req) db_text rag_text
                      (answer_style plan) (mode plan)))"

section \<open>Sample collaborators\<close>

text \<open>
  A relational store that answers every statement with one row holding the statement
  and its bound parameters.
\<close>

definition echo_db :: rdb_env where
  "echo_db =
     \<lparr>db_execute = (\<lambda>sql ps. Inr [(''sql'', PStr sql) # ps]),
      query_employee_contact_by_name = (\<lambda>n c. Inr [])\<rparr>"

text \<open>
  Collaborators for one request: the planning call times out, the store and the index
  hold nothing, the answering model says nothing, and the receiver accepts every post.
\<close>

definition silent_env :: env where
  "silent_env =
     \<lparr>db_execute = (\<lambda>sql ps. Inr []),
      query_employee_contact_by_name = (\<lambda>n c. Inr []),
      plan_completion = (\<lambda>u. Inl (RuntimeError ''planner timeout'')),
      json_loads = (\<lambda>s. Inl (JSONDecodeError ''no json'')),
      QueryPlan_of = (\<lambda>j. Inl (ValidationError ''invalid plan'')),
      stream_completion = (\<lambda>p. Inr ([], None)),
      full_completion = (\<lambda>p. Inr None),
      search_prov_chunks = (\<lambda>q k. Inr []),
      query_db_with_llm = (\<lambda>q c e. Inr []),
      validate_callback_url = (\<lambda>u. Inr u),
      post_outcome = (\<lambda>n u k e. None)\<rparr>"

text \<open>
  The same with a receiver that refuses every post, with a callback URL that does not
  validate, and with a receiver that refuses only the first post.
\<close>

definition unreachable_env :: env where
  "unreachable_env =
     silent_env\<lparr>post_outcome := (\<lambda>n u k e. Some (RuntimeError ''receiver down''))\<rparr>"

definition rejecting_env :: env where
  "rejecting_env =
     silent_env\<lparr>validate_callback_url := (\<lambda>u. Inl (RuntimeError ''invalid callback url''))\<rparr>"

definition first_post_fails_env :: env where
  "first_post_fails_env =
     silent_env\<lparr>post_outcome :=
       (\<lambda>n u k e. if n = 0 then Some (RuntimeError ''receiver down'') else None)\<rparr>"

text \<open>
  The index holds one passage; the stream yields two deltas (and an empty chunk between
  them) and then raises; the plain completion answers.
\<close>

definition broken_stream_env :: env where
  "broken_stream_env =
     silent_env\<lparr>search_prov_chunks := (\<lambda>q k. Inr [''ctx'']),
                 stream_completion :=
                   (\<lambda>p. Inr ([Some ''a'', None, Some ''b''], Some (RuntimeError ''stream broke''))),
                 full_completion := (\<lambda>p. Inr (Some ''full answer''))\<rparr>"

text \<open>A receiver that refuses every chunk and accepts every terminal event.\<close>

definition chunks_refused_env :: env where
  "chunks_refused_env =
     silent_env\<lparr>post_outcome :=
       (\<lambda>n u k e. if is_done e then None else Some (RuntimeError ''receiver down''))\<rparr>"

text \<open>
  A planning model that answers with the empty string. \<open>json.loads\<close> raises on the
  empty string and reads \<open>{}\<close> as the empty object, and \<open>QueryPlan()\<close> of the empty
  object is the plan of the field defaults.
\<close>

definition empty_output_env :: env where
  "empty_output_env =
     silent_env\<lparr>plan_completion := (\<lambda>u. Inr (Some [])),
                 json_loads := (\<lambda>s. if s = ''{}'' then Inr (JObj [])
                                     else Inl (JSONDecodeError ''Expecting value'')),
                 QueryPlan_of := (\<lambda>j. if j = JObj []
                                       then Inr \<lparr>mode = Rag, rag_tasks = [], rdb_tasks = [],
                                                answer_style = None\<rparr>
                                       else Inl (ValidationError ''invalid plan''))\<rparr>"

text \<open>
  A store that holds seven rows for the statements that end in \<open>LIMIT 7\<close> and none for
  the others, and a store whose contact search finds two employees.
\<close>

definition seven_db :: rdb_env where
  "seven_db =
     \<lparr>db_execute = (\<lambda>sql ps. Inr (if suffix '' LIMIT 7'' sql
                                     then replicate 7 [(''todo_no'', PInt 1)] else [])),
      query_employee_contact_by_name = (\<lambda>n c. Inr [])\<rparr>"

definition crowded_db :: rdb_env where
  "crowded_db =
     \<lparr>db_execute = (\<lambda>sql ps. Inr []),
      query_employee_contact_by_name =
        (\<lambda>n c. Inr [[(''emp_name'', PStr ''Kim A'')], [(''emp_name'', PStr ''Kim B'')]])\<rparr>"

definition sample_request :: request where
  "sample_request =
     \<lparr>question = ''q'', history = [], empId = Some ''e1'', comId = Some ''A'',
      messageId = ''m1'', callbackUrl = ''http://cb'', callbackKey = ''k''\<rparr>"

section \<open>Formatting of rows\<close>

lemma join_concat: "join sep (x # xs) = x @ concat (map ((@) sep) xs)"
  by (induction xs arbitrary: x) simp_all

lemma join_case:
  "join sep xs = (case xs of [] \<Rightarrow> [] | x # r \<Rightarrow> x @ concat (map ((@) sep) r))"
  by (cases xs) (simp_all add: join_concat)

text \<open>
  C9. \<open>format_rows\<close> of the empty list is the empty string. Of 15 rows with
  \<open>max_rows = 10\<close> it is the header, made of the keys of the first row with \<open>" | "\<close>
  between them, then for each of the first 10 rows a newline and the line of the row
  (for each key of the first row the \<open>str()\<close> of the value of the row, or the empty
  string when the row lacks the key, with \<open>" | "\<close> between them), then a newline and
  \<open>...(5 more)\<close>. When the number of rows does not exceed \<open>max_rows\<close> it is the header
  and a newline and line for every row, and nothing after the last row.
\<close>

theorem format_rows_text:
  "format_rows [] m = Inr []
   \<and> (length rest = 14 \<longrightarrow>
        format_rows (r0 # rest) 10 =
          Inr ((case map fst r0 of [] \<Rightarrow> [] | k # ks \<Rightarrow> k @ concat (map ((@) '' | '') ks)) @
               concat (map (\<lambda>r. [CHR 0x0A] @
                                 (case map (\<lambda>h. py_str (case map_of r h of
                                                            None \<Rightarrow> PStr [] | Some v \<Rightarrow> v))
                                           (map fst r0) of
                                    [] \<Rightarrow> []
                                  | c # cs \<Rightarrow> c @ concat (map ((@) '' | '') cs)))
                           (take 10 (r0 # rest))) @
               [CHR 0x0A] @ ''...(5 more)''))
   \<and> (int (length (r0 # rest)) \<le> m \<longrightarrow>
        format_rows (r0 # rest) m =
          Inr ((case map fst r0 of [] \<Rightarrow> [] | k # ks \<Rightarrow> k @ concat (map ((@) '' | '') ks)) @
               concat (map (\<lambda>r. [CHR 0x0A] @
                                 (case map (\<lambda>h. py_str (case map_of r h of
                                                            None \<Rightarrow> PStr [] | Some v \<Rightarrow> v))
                                           (map fst r0) of
                                    [] \<Rightarrow> []
                                  | c # cs \<Rightarrow> c @ concat (map ((@) '' | '') cs)))
                           (r0 # rest))))"
proof (intro conjI impI)
  show "format_rows [] m = Inr []"
    by (simp add: format_rows_def)
next
  assume len: "length rest = 14"
  have five: "elision 5 = ''...(5 more)''"
    by (simp add: elision_def str_int_def str_nat.simps digit_char_def)
  have sl: "slice_to (r0 # rest) 10 = r0 # take 9 rest"
    by (simp add: slice_to_def take_Cons')
  have tk: "take 10 (r0 # rest) = r0 # take 9 rest"
    by (simp add: take_Cons')
  have "format_rows (r0 # rest) 10 =
      Inr (join nl ([join '' | '' (map fst r0)] @
                    map (row_line (map fst r0)) (r0 # take 9 rest) @ [''...(5 more)'']))"
    using len by (simp add: format_rows_def Let_def five sl)
  then show "format_rows (r0 # rest) 10 =
          Inr ((case map fst r0 of [] \<Rightarrow> [] | k # ks \<Rightarrow> k @ concat (map ((@) '' | '') ks)) @
               concat (map (\<lambda>r. [CHR 0x0A] @
                                 (case map (\<lambda>h. py_str (case map_of r h of
                                                            None \<Rightarrow> PStr [] | Some v \<Rightarrow> v))
                                           (map fst r0) of
                                    [] \<Rightarrow> []
                                  | c # cs \<Rightarrow> c @ concat (map ((@) '' | '') cs)))
                           (take 10 (r0 # rest))) @
               [CHR 0x0A] @ ''...(5 more)'')"
    unfolding tk
    by (simp add: join_concat nl_def row_line_def join_case [of "'' | ''"] comp_def)
next
  assume le: "int (length (r0 # rest)) \<le> m"
  then have "take (nat m) (r0 # rest) = r0 # rest" by simp
  moreover from le have "0 \<le> m" by simp
  ultimately have "slice_to (r0 # rest) m = r0 # rest"
    by (simp add: slice_to_def)
  then have "format_rows (r0 # rest) m =
      Inr (join nl ([join '' | '' (map fst r0)] @ map (row_line (map fst r0)) (r0 # rest)))"
    using le by (simp add: format_rows_def Let_def)
  then show "format_rows (r0 # rest) m =
          Inr ((case map fst r0 of [] \<Rightarrow> [] | k # ks \<Rightarrow> k @ concat (map ((@) '' | '') ks)) @
               concat (map (\<lambda>r. [CHR 0x0A] @
                                 (case map (\<lambda>h. py_str (case map_of r h of
                                                            None \<Rightarrow> PStr [] | Some v \<Rightarrow> v))
                                           (map fst r0) of
                                    [] \<Rightarrow> []
                                  | c # cs \<Rightarrow> c @ concat (map ((@) '' | '') cs)))
                           (r0 # rest)))"
    by (simp add: join_concat nl_def row_line_def join_case [of "'' | ''"] comp_def)
qed

theorem format_rows_text_witness:
  "length ([(''id'', PInt 2)] # [(''id'', PInt 3), (''title'', PNone)] #
           replicate 12 [(''id'', PInt 4), (''title'', PStr ''b'')]) = 14
   \<and> format_rows ([(''id'', PInt 1), (''title'', PStr ''a'')] # [(''id'', PInt 2)] #
                   [(''id'', PInt 3), (''title'', PNone)] #
                   replicate 12 [(''id'', PInt 4), (''title'', PStr ''b'')]) 10 =
       Inr ''id | title\<newline>1 | a\<newline>2 | \<newline>3 | None\<newline>4 | b\<newline>4 | b\<newline>4 | b\<newline>4 | b\<newline>4 | b\<newline>4 | b\<newline>4 | b\<newline>...(5 more)''
   \<and> int (length ([(''id'', PInt 1), (''title'', PStr ''a'')] # [[(''title'', PStr ''x''), (''id'', PInt 20)]])) \<le> 2
   \<and> format_rows ([(''id'', PInt 1), (''title'', PStr ''a'')] #
                   [[(''title'', PStr ''x''), (''id'', PInt 20)]]) 2 =
       Inr ''id | title\<newline>1 | a\<newline>20 | x''"
proof -
  let ?r0 = "[(''id'', PInt 1), (''title'', PStr ''a'')]"
  let ?rest = "[(''id'', PInt 2)] # [(''id'', PInt 3), (''title'', PNone)] #
           replicate 12 [(''id'', PInt 4), (''title'', PStr ''b'')]"
  let ?rest2 = "[[(''title'', PStr ''x''), (''id'', PInt 20)]]"
  have l: "length ?rest = 14" by simp
  have l2: "int (length (?r0 # ?rest2)) \<le> 2" by simp
  note t1 = format_rows_text [of 2 ?rest ?r0]
  note t2 = format_rows_text [of 2 ?rest2 ?r0]
  from t1 l have a: "format_rows (?r0 # ?rest) 10 =
          Inr ((case map fst ?r0 of [] \<Rightarrow> [] | k # ks \<Rightarrow> k @ concat (map ((@) '' | '') ks)) @
               concat (map (\<lambda>r. [CHR 0x0A] @
                                 (case map (\<lambda>h. py_str (case map_of r h of
                                                            None \<Rightarrow> PStr [] | Some v \<Rightarrow> v))
                                           (map fst ?r0) of
                                    [] \<Rightarrow> []
                                  | c # cs \<Rightarrow> c @ concat (map ((@) '' | '') cs)))
                           (take 10 (?r0 # ?rest))) @
               [CHR 0x0A] @ ''...(5 more)'')" by blast
  from t2 l2 have b: "format_rows (?r0 # ?rest2) 2 =
          Inr ((case map fst ?r0 of [] \<Rightarrow> [] | k # ks \<Rightarrow> k @ concat (map ((@) '' | '') ks)) @
               concat (map (\<lambda>r. [CHR 0x0A] @
                                 (case map (\<lambda>h. py_str (case map_of r h of
                                                            None \<Rightarrow> PStr [] | Some v \<Rightarrow> v))
                                           (map fst ?r0) of
                                    [] \<Rightarrow> []
                                  | c # cs \<Rightarrow> c @ concat (map ((@) '' | '') cs)))
                           (?r0 # ?rest2)))" by blast
  have ea: "(case map fst ?r0 of [] \<Rightarrow> [] | k # ks \<Rightarrow> k @ concat (map ((@) '' | '') ks)) @
               concat (map (\<lambda>r. [CHR 0x0A] @
                                 (case map (\<lambda>h. py_str (case map_of r h of
                                                            None \<Rightarrow> PStr [] | Some v \<Rightarrow> v))
                                           (map fst ?r0) of
                                    [] \<Rightarrow> []
                                  | c # cs \<Rightarrow> c @ concat (map ((@) '' | '') cs)))
                           (take 10 (?r0 # ?rest))) @
               [CHR 0x0A] @ ''...(5 more)'' =
        ''id | title\<newline>1 | a\<newline>2 | \<newline>3 | None\<newline>4 | b\<newline>4 | b\<newline>4 | b\<newline>4 | b\<newline>4 | b\<newline>4 | b\<newline>4 | b\<newline>...(5 more)''"
    by code_simp
  have eb: "(case map fst ?r0 of [] \<Rightarrow> [] | k # ks \<Rightarrow> k @ concat (map ((@) '' | '') ks)) @
               concat (map (\<lambda>r. [CHR 0x0A] @
                                 (case map (\<lambda>h. py_str (case map_of r h of
                                                            None \<Rightarrow> PStr [] | Some v \<Rightarrow> v))
                                           (map fst ?r0) of
                                    [] \<Rightarrow> []
                                  | c # cs \<Rightarrow> c @ concat (map ((@) '' | '') cs)))
                           (?r0 # ?rest2)) = ''id | title\<newline>1 | a\<newline>20 | x''"
    by code_simp
  show ?thesis
    apply (intro conjI)
       apply (rule l)
      apply (rule a [unfolded ea])
     apply (rule l2)
    apply (rule b [unfolded eb])
    done
qed

section \<open>The row cap\<close>

lemma str_int_50: "str_int 50 = ''50''"
  by (simp add: str_int_def str_nat.simps digit_char_def)

lemma str_int_5: "str_int 5 = ''5''"
  by (simp add: str_int_def str_nat.simps digit_char_def)

lemma limit_clause_int:
  "limit_clause (PInt l) 50 = Inr ('' LIMIT '' @ str_int (if l = 0 then 50 else min l 50))"
  by (simp add: limit_clause_def)

lemma limit_clause_none: "limit_clause PNone 50 = Inr ('' LIMIT '' @ str_int 50)"
  by (simp add: limit_clause_def)


lemma limit_clause_cap:
  assumes "v = PInt l \<or> v = PNone"
  shows "limit_clause v 50 = Inr ('' LIMIT '' @ str_int (cap_of v))"
  using assms by (auto simp: limit_clause_def cap_of_def)

lemma cap_of_le: "cap_of v \<le> 50"
  by (simp add: cap_of_def split: pyval.splits)


lemmas tool_defs = get_my_todos_def get_my_mails_def get_my_attendance_def get_meetings_for_me_def
  get_meeting_room_reservations_def get_corporate_car_reservations_def
  get_shared_equipment_reservations_def get_employee_contact_def search_board_posts_def
  get_approval_lines_def search_employee_by_name_def

lemma param_undeclared:
  assumes "\<forall>k\<in>set (map fst a). declares fn k" "\<not> declares fn p"
  shows "map_of a p = None"
proof (rule ccontr)
  assume "map_of a p \<noteq> None"
  then obtain v where "map_of a p = Some v" by auto
  then have "p \<in> set (map fst a)" by (metis map_of_SomeD set_zip_leftD zip_map_fst_snd)
  with assms show False by auto
qed

lemma tool_statement:
  assumes fn: "fn \<noteq> Search_employee_by_name"
    and b1: "\<forall>k\<in>set (map fst a). declares fn k"
    and b2: "\<forall>r\<in>set (required_params fn). map_of a r \<noteq> None"
    and lim: "param fn a ''limit'' = PInt l \<or> param fn a ''limit'' = PNone"
  shows "\<exists>sql ps. \<forall>db::'e rdb_env_scheme.
           call_tool db fn a = db_execute db (sql @ '' LIMIT '' @ str_int (tool_cap fn a)) ps"
proof -
  have nb1: "(\<exists>k\<in>set (map fst a). \<not> declares fn k) = False" using b1 by blast
  have nb2: "(\<exists>r\<in>set (required_params fn). map_of a r = None) = False" using b2 by blast
  note lc = limit_clause_cap[OF lim] limit_clause_none
  have five: "''SELECT emp_name, email, phone, work_phone, emp_id, dep_no, pos_no '' @
        ''FROM employee WHERE com_id = :com_id AND emp_id = :emp_id LIMIT 5'' =
     (''SELECT emp_name, email, phone, work_phone, emp_id, dep_no, pos_no '' @
        ''FROM employee WHERE com_id = :com_id AND emp_id = :emp_id'') @ '' LIMIT '' @ str_int 5"
    by (simp add: str_int_5)
  show ?thesis
  proof (cases fn)
    case Get_my_todos
    note nb = nb1[unfolded Get_my_todos] nb2[unfolded Get_my_todos] and lc' = lc[unfolded Get_my_todos]
    show ?thesis
      unfolding Get_my_todos call_tool_def tool_defs Let_def tool_cap_def five
      apply (simp only: nb if_False if_True tool.case lc' sum.case tool.distinct simp_thms refl)
      apply (rule exI, rule exI, rule allI, rule refl)
      done
  next
    case Get_my_mails
    note nb = nb1[unfolded Get_my_mails] nb2[unfolded Get_my_mails] and lc' = lc[unfolded Get_my_mails]
    show ?thesis
      unfolding Get_my_mails call_tool_def tool_defs Let_def tool_cap_def five
      apply (simp only: nb if_False if_True tool.case lc' sum.case tool.distinct simp_thms refl)
      apply (rule exI, rule exI, rule allI, rule refl)
      done
  next
    case Get_my_attendance
    note nb = nb1[unfolded Get_my_attendance] nb2[unfolded Get_my_attendance] and lc' = lc[unfolded Get_my_attendance]
    show ?thesis
      unfolding Get_my_attendance call_tool_def tool_defs Let_def tool_cap_def five
      apply (simp only: nb if_False if_True tool.case lc' sum.case tool.distinct simp_thms refl)
      apply (rule exI, rule exI, rule allI, rule refl)
      done
  next
    case Get_meetings_for_me
    note nb = nb1[unfolded Get_meetings_for_me] nb2[unfolded Get_meetings_for_me] and lc' = lc[unfolded Get_meetings_for_me]
    show ?thesis
      unfolding Get_meetings_for_me call_tool_def tool_defs Let_def tool_cap_def five
      apply (simp only: nb if_False if_True tool.case lc' sum.case tool.distinct simp_thms refl)
      apply (rule exI, rule exI, rule allI, rule refl)
      done
  next
    case Get_meeting_room_reservations
    note nb = nb1[unfolded Get_meeting_room_reservations] nb2[unfolded Get_meeting_room_reservations] and lc' = lc[unfolded Get_meeting_room_reservations]
    show ?thesis
      unfolding Get_meeting_room_reservations call_tool_def tool_defs Let_def tool_cap_def five
      apply (simp only: nb if_False if_True tool.case lc' sum.case tool.distinct simp_thms refl)
      apply (rule exI, rule exI, rule allI, rule refl)
      done
  next
    case Get_corporate_car_reservations
    note nb = nb1[unfolded Get_corporate_car_reservations] nb2[unfolded Get_corporate_car_reservations] and lc' = lc[unfolded Get_corporate_car_reservations]
    show ?thesis
      unfolding Get_corporate_car_reservations call_tool_def tool_defs Let_def tool_cap_def five
      apply (simp only: nb if_False if_True tool.case lc' sum.case tool.distinct simp_thms refl)
      apply (rule exI, rule exI, rule allI, rule refl)
      done
  next
    case Get_shared_equipment_reservations
    note nb = nb1[unfolded Get_shared_equipment_reservations] nb2[unfolded Get_shared_equipment_reservations] and lc' = lc[unfolded Get_shared_equipment_reservations]
    show ?thesis
      unfolding Get_shared_equipment_reservations call_tool_def tool_defs Let_def tool_cap_def five
      apply (simp only: nb if_False if_True tool.case lc' sum.case tool.distinct simp_thms refl)
      apply (rule exI, rule exI, rule allI, rule refl)
      done
  next
    case Get_employee_contact
    note nb = nb1[unfolded Get_employee_contact] nb2[unfolded Get_employee_contact] and lc' = lc[unfolded Get_employee_contact]
    show ?thesis
      unfolding Get_employee_contact call_tool_def tool_defs Let_def tool_cap_def five
      apply (simp only: nb if_False if_True tool.case lc' sum.case tool.distinct simp_thms refl)
      apply (rule exI, rule exI, rule allI, rule refl)
      done
  next
    case Search_board_posts
    note nb = nb1[unfolded Search_board_posts] nb2[unfolded Search_board_posts] and lc' = lc[unfolded Search_board_posts]
    show ?thesis
      unfolding Search_board_posts call_tool_def tool_defs Let_def tool_cap_def five
      apply (simp only: nb if_False if_True tool.case lc' sum.case tool.distinct simp_thms refl)
      apply (rule exI, rule exI, rule allI, rule refl)
      done
  next
    case Get_approval_lines
    note nb = nb1[unfolded Get_approval_lines] nb2[unfolded Get_approval_lines] and lc' = lc[unfolded Get_approval_lines]
    show ?thesis
      unfolding Get_approval_lines call_tool_def tool_defs Let_def tool_cap_def five
      apply (simp only: nb if_False if_True tool.case lc' sum.case tool.distinct simp_thms refl)
      apply (rule exI, rule exI, rule allI, rule refl)
      done
  next
    case Search_employee_by_name
    with fn show ?thesis by simp
  qed
qed


lemma call_tool_binds:
  assumes "call_tool db fn a = Inr rows"
  shows "\<forall>k\<in>set (map fst a). declares fn k" "\<forall>r\<in>set (required_params fn). map_of a r \<noteq> None"
proof -
  show "\<forall>k\<in>set (map fst a). declares fn k"
  proof (rule ccontr)
    assume "\<not> (\<forall>k\<in>set (map fst a). declares fn k)"
    then have "\<exists>k\<in>set (map fst a). \<not> declares fn k" by blast
    then have "call_tool db fn a = Inl (TypeError ''got an unexpected keyword argument'')"
      unfolding call_tool_def by (simp only: if_True)
    with assms show False by simp
  qed
  then have nb: "(\<exists>k\<in>set (map fst a). \<not> declares fn k) = False" by blast
  show "\<forall>r\<in>set (required_params fn). map_of a r \<noteq> None"
  proof (rule ccontr)
    assume "\<not> (\<forall>r\<in>set (required_params fn). map_of a r \<noteq> None)"
    then have "\<exists>r\<in>set (required_params fn). map_of a r = None" by simp
    then have "call_tool db fn a = Inl (TypeError ''missing required positional argument'')"
      unfolding call_tool_def nb by (simp only: if_True if_False)
    with assms show False by simp
  qed
qed

lemma no_limit_param:
  assumes "\<forall>k\<in>set (map fst a). declares fn k" "\<not> declares fn ''limit''"
  shows "param fn a ''limit'' = PNone"
proof -
  have "map_of a ''limit'' = None" using assms by (rule param_undeclared)
  moreover have "map_of (optional_params fn) ''limit'' = None"
    using assms(2) by (cases fn) (simp_all add: declares_def)
  ultimately show ?thesis by (simp add: param_def)
qed

lemma tool_rows_capped:
  assumes h: "honours_limit db" and fn: "fn \<noteq> Search_employee_by_name"
    and c: "call_tool db fn a = Inr rows"
    and lim: "param fn a ''limit'' = PInt l \<or> param fn a ''limit'' = PNone"
    and nn: "0 \<le> tool_cap fn a"
  shows "int (length rows) \<le> tool_cap fn a"
proof -
  note b = call_tool_binds[OF c]
  from tool_statement[OF fn b lim] obtain sql ps where
    "call_tool db fn a = db_execute db (sql @ '' LIMIT '' @ str_int (tool_cap fn a)) ps"
    by blast
  with c have "db_execute db (sql @ '' LIMIT '' @ str_int (tool_cap fn a)) ps = Inr rows" by simp
  with h nn show ?thesis unfolding honours_limit_def by blast
qed

lemma digit_char_digit: "m < 10 \<Longrightarrow> digit_char m \<in> set ''0123456789''"
proof -
  assume "m < 10"
  then have "m < length ''0123456789''" by simp
  then show ?thesis unfolding digit_char_def by (rule nth_mem)
qed

lemma str_nat_digits: "set (str_nat n) \<subseteq> set ''0123456789''"
proof (induction n rule: str_nat.induct)
  case (1 n)
  show ?case
  proof (cases "n < 10")
    case True
    then show ?thesis using digit_char_digit[of n] by (subst str_nat.simps) simp
  next
    case False
    then show ?thesis using 1 digit_char_digit[of "n mod 10"] by (subst str_nat.simps) auto
  qed
qed

lemma str_nat_nonempty: "str_nat n \<noteq> []"
  by (subst str_nat.simps) simp

lemma str_nat_seven: "str_nat n = ''7'' \<Longrightarrow> n = 7"
proof -
  assume a: "str_nat n = ''7''"
  show "n = 7"
  proof (cases "n < 10")
    case True
    with a have d: "digit_char n = CHR ''7''" by (subst (asm) str_nat.simps) simp
    from True have "n \<in> {0,1,2,3,4,5,6,7,8,9}" by auto
    with d show ?thesis by (auto simp: digit_char_def)
  next
    case False
    with a have "str_nat (n div 10) @ [digit_char (n mod 10)] = ''7''"
      by (subst (asm) str_nat.simps) simp
    then have "str_nat (n div 10) = []" by (simp add: append_eq_Cons_conv)
    with str_nat_nonempty show ?thesis by blast
  qed
qed

lemma limit_seven:
  assumes k: "0 \<le> k" and s: "suffix '' LIMIT 7'' (sql @ '' LIMIT '' @ str_int k)"
  shows "k = 7"
proof -
  let ?d = "str_nat (nat k)"
  from k have si: "str_int k = ?d" by (simp add: str_int_def)
  from s obtain zs where z: "sql @ '' LIMIT '' @ ?d = zs @ '' LIMIT 7''"
    unfolding suffix_def si by blast
  have ne: "?d \<noteq> []" by (rule str_nat_nonempty)
  then obtain b x where d: "?d = b @ [x]" by (metis rev_exhaust)
  from z have "(sql @ '' LIMIT '' @ b) @ [x] = (zs @ '' LIMIT '') @ ''7''"
    unfolding d by simp
  then have x: "x = CHR ''7''" and r: "sql @ '' LIMIT '' @ b = zs @ '' LIMIT ''"
    by simp_all
  have "b = []"
  proof (rule ccontr)
    assume "b \<noteq> []"
    then obtain b' y where b: "b = b' @ [y]" by (metis rev_exhaust)
    from r have "(sql @ '' LIMIT '' @ b') @ [y] = (zs @ '' LIMIT'') @ '' ''"
      unfolding b by simp
    then have "y = CHR '' ''" by simp
    moreover have "y \<in> set ?d" unfolding d b by simp
    ultimately have "CHR '' '' \<in> set ''0123456789''" using str_nat_digits[of "nat k"] by blast
    then show False by simp
  qed
  with d x have "?d = ''7''" by simp
  then have "nat k = 7" by (rule str_nat_seven)
  with k show ?thesis by simp
qed

lemma seven_db_honours: "honours_limit seven_db"
  unfolding honours_limit_def
proof (intro allI impI)
  fix sql k ps rows
  assume k: "0 \<le> k" and e: "db_execute seven_db (sql @ '' LIMIT '' @ str_int k) ps = Inr rows"
  show "int (length rows) \<le> k"
  proof (cases "suffix '' LIMIT 7'' (sql @ '' LIMIT '' @ str_int k)")
    case True
    then have "k = 7" using k by (intro limit_seven)
    moreover from e True have "length rows = 7" by (auto simp: seven_db_def)
    ultimately show ?thesis by simp
  next
    case False
    with e have "rows = []" by (auto simp: seven_db_def)
    with k show ?thesis by simp
  qed
qed

text \<open>
  C8, as the code has it. \<open>_limit_clause\<close> appends \<open>LIMIT min(l, 50)\<close> for a positive
  limit \<open>l\<close> and \<open>LIMIT 50\<close> for a limit of 0 or no limit. With a store that returns at
  most \<open>k\<close> rows for a statement ending in \<open>LIMIT k\<close>, every registry tool other than
  \<open>search_employee_by_name\<close> returns at most \<open>min(l, 50)\<close> rows for a positive limit
  \<open>l\<close>, and at most 50 rows for a limit of 0 or no limit.
\<close>

theorem row_cap:
  "(0 < l \<longrightarrow> limit_clause (PInt l) 50 = Inr ('' LIMIT '' @ str_int (min l 50)))
   \<and> limit_clause (PInt 0) 50 = Inr '' LIMIT 50''
   \<and> limit_clause PNone 50 = Inr '' LIMIT 50''
   \<and> (honours_limit db \<and> fn \<noteq> Search_employee_by_name \<and> call_tool db fn a = Inr rows \<and>
       param fn a ''limit'' = PInt l \<and> 0 < l \<longrightarrow>
         int (length rows) \<le> min l 50)
   \<and> (honours_limit db \<and> fn \<noteq> Search_employee_by_name \<and> call_tool db fn a = Inr rows \<and>
       (param fn a ''limit'' = PInt 0 \<or> param fn a ''limit'' = PNone) \<longrightarrow>
         int (length rows) \<le> 50)"
proof (intro conjI impI)
  assume "0 < l"
  then show "limit_clause (PInt l) 50 = Inr ('' LIMIT '' @ str_int (min l 50))"
    by (simp add: limit_clause_int)
next
  show "limit_clause (PInt 0) 50 = Inr '' LIMIT 50''"
    using limit_clause_int [of 0] by (simp add: str_int_50)
  show "limit_clause PNone 50 = Inr '' LIMIT 50''"
    using limit_clause_none by (simp add: str_int_50)
next
  assume a: "honours_limit db \<and> fn \<noteq> Search_employee_by_name \<and> call_tool db fn a = Inr rows \<and>
       param fn a ''limit'' = PInt l \<and> 0 < l"
  then have c: "call_tool db fn a = Inr rows" and p: "param fn a ''limit'' = PInt l" and l: "0 < l"
    by auto
  have d: "declares fn ''limit''"
  proof (rule ccontr)
    assume "\<not> declares fn ''limit''"
    with call_tool_binds(1)[OF c] have "param fn a ''limit'' = PNone" by (rule no_limit_param)
    with p show False by simp
  qed
  then have cap: "tool_cap fn a = min l 50"
    using p l by (auto simp: tool_cap_def cap_of_def declares_def)
  have "int (length rows) \<le> tool_cap fn a"
    using a l by (intro tool_rows_capped [where l = l]) (auto simp: cap)
  then show "int (length rows) \<le> min l 50" by (simp add: cap)
next
  assume a: "honours_limit db \<and> fn \<noteq> Search_employee_by_name \<and> call_tool db fn a = Inr rows \<and>
       (param fn a ''limit'' = PInt 0 \<or> param fn a ''limit'' = PNone)"
  have cap: "0 \<le> tool_cap fn a \<and> tool_cap fn a \<le> 50"
    using a by (auto simp: tool_cap_def cap_of_def)
  have "int (length rows) \<le> tool_cap fn a"
    using a cap by (intro tool_rows_capped [where l = 0]) auto
  with cap show "int (length rows) \<le> 50" by simp
qed

theorem row_cap_witness:
  "limit_clause (PInt 7) 50 = Inr '' LIMIT 7''
   \<and> call_tool seven_db Get_my_todos
        [(''emp_id'', PStr ''e1''), (''com_id'', PStr ''A''), (''limit'', PInt 7)] =
       Inr (replicate 7 [(''todo_no'', PInt 1)])
   \<and> int (length (replicate 7 [(''todo_no'', PInt 1)])) \<le> min 7 50
   \<and> call_tool seven_db Get_my_todos
        [(''emp_id'', PStr ''e1''), (''com_id'', PStr ''A''), (''limit'', PInt 0)] = Inr []
   \<and> int (length ([] :: row list)) \<le> 50"
proof -
  let ?a7 = "[(''emp_id'', PStr ''e1''), (''com_id'', PStr ''A''), (''limit'', PInt 7)]"
  let ?a0 = "[(''emp_id'', PStr ''e1''), (''com_id'', PStr ''A''), (''limit'', PInt 0)]"
  have s7: "str_int 7 = ''7''" by code_simp
  have c7: "call_tool seven_db Get_my_todos ?a7 = Inr (replicate 7 [(''todo_no'', PInt 1)])"
    by code_simp
  have c0: "call_tool seven_db Get_my_todos ?a0 = Inr []" by code_simp
  have p7: "param Get_my_todos ?a7 ''limit'' = PInt 7" by (simp add: param_def)
  have p0: "param Get_my_todos ?a0 ''limit'' = PInt 0" by (simp add: param_def)
  note t7 = row_cap [where ?'a = unit and l = 7 and db = seven_db and fn = Get_my_todos and a = ?a7
      and rows = "replicate 7 [(''todo_no'', PInt 1)]"]
  note t0 = row_cap [where ?'a = unit and l = 7 and db = seven_db and fn = Get_my_todos and a = ?a0
      and rows = "[]"]
  from t7 have a: "limit_clause (PInt 7) 50 = Inr ('' LIMIT '' @ str_int (min 7 50))" by simp
  from t7 seven_db_honours c7 p7
  have b: "int (length (replicate 7 [(''todo_no'', PInt 1)])) \<le> min 7 50" by simp
  from t0 seven_db_honours c0 p0 have c: "int (length ([] :: row list)) \<le> 50" by simp
  from a have a': "limit_clause (PInt 7) 50 = Inr '' LIMIT 7''" by (simp add: s7)
  show ?thesis using a' c7 b c0 c by blast
qed


text \<open>
  Three inputs at which the cap \<open>min(limit, 50)\<close> fails. A limit of 0 is falsy and the
  clause is \<open>LIMIT 50\<close>. \<open>search_employee_by_name\<close> takes a limit and hands none to the
  contact search, so with a limit of 1 it returns the two employees found. A limit of
  -5 is written into the statement as \<open>LIMIT -5\<close>.
\<close>

theorem row_cap_counterexample:
  "limit_clause (PInt 0) 50 \<noteq> Inr ('' LIMIT '' @ str_int (min 0 50))
   \<and> call_tool crowded_db Search_employee_by_name
        [(''com_id'', PStr ''A''), (''name'', PStr ''Kim''), (''limit'', PInt 1)] =
       Inr [[(''emp_name'', PStr ''Kim A'')], [(''emp_name'', PStr ''Kim B'')]]
   \<and> call_tool echo_db Get_my_mails
        [(''emp_id'', PStr ''e1''), (''com_id'', PStr ''A''), (''limit'', PInt (- 5))] =
       Inr [[(''sql'', PStr (''SELECT mail_no, title, created_at, sender_id '' @
                            ''FROM mail WHERE sender_id = :emp_id LIMIT -5'')),
             (''emp_id'', PStr ''e1'')]]"
  by (intro conjI; code_simp)

section \<open>The executor\<close>

lemma execute_loop_append:
  "execute_loop db c e (ts1 @ ts2) acc = execute_loop db c e ts2 (execute_loop db c e ts1 acc)"
proof (induction ts1 arbitrary: acc)
  case Nil
  show ?case by simp
next
  case (Cons t ts1)
  obtain R S where acc: "acc = (R, S)" by (cases acc)
  show ?case unfolding acc using Cons.IH
    by (simp split: option.splits sum.splits)
qed

lemma execute_loop_acc:
  "execute_loop db c e ts (R, S) =
     (R @ fst (execute_loop db c e ts ([], [])), S @ snd (execute_loop db c e ts ([], [])))"
proof (induction ts arbitrary: R S)
  case Nil
  show ?case by simp
next
  case (Cons t ts)
  show ?case
  proof (cases "TOOL_REGISTRY (name t)")
    case None
    then show ?thesis using Cons.IH[of R S] by simp
  next
    case (Some fn)
    show ?thesis
    proof (cases "call_tool db fn (inject_ids fn c e (args t))")
      case (Inl x)
      then show ?thesis using Some Cons.IH[of R S] by simp
    next
      case (Inr rows)
      then show ?thesis
        using Some Cons.IH[of "R @ rows" "S @ [summary_line (name t) rows]"]
          Cons.IH[of "rows" "[summary_line (name t) rows]"]
        by simp
    qed
  qed
qed

lemma execute_rdb_tasks_parts:
  "(\<exists>rows sums. execute_rdb_tasks db tasks c e = Inr (rows, sums))
   \<and> execute_rdb_tasks db [] c e = Inr ([], [])
   \<and> (TOOL_REGISTRY (name t) = None \<longrightarrow>
        execute_rdb_tasks db (ts1 @ t # ts2) c e = execute_rdb_tasks db (ts1 @ ts2) c e)
   \<and> (TOOL_REGISTRY (name t) = Some fn \<and> call_tool db fn (inject_ids fn c e (args t)) = Inl x \<longrightarrow>
        execute_rdb_tasks db (ts1 @ t # ts2) c e = execute_rdb_tasks db (ts1 @ ts2) c e)
   \<and> (TOOL_REGISTRY (name t) = Some fn \<and> call_tool db fn (inject_ids fn c e (args t)) = Inr rs \<and>
        execute_rdb_tasks db ts1 c e = Inr (R1, S1) \<and> execute_rdb_tasks db ts2 c e = Inr (R2, S2) \<longrightarrow>
        execute_rdb_tasks db (ts1 @ t # ts2) c e =
          Inr (R1 @ rs @ R2, S1 @ [name t @ '': '' @ str_int (int (length rs)) @ '' rows''] @ S2))"
proof (intro conjI impI)
  show "\<exists>rows sums. execute_rdb_tasks db tasks c e = Inr (rows, sums)"
    by (cases "execute_loop db c e tasks ([], [])") (simp add: execute_rdb_tasks_def)
  show "execute_rdb_tasks db [] c e = Inr ([], [])"
    by (simp add: execute_rdb_tasks_def)
  show "execute_rdb_tasks db (ts1 @ t # ts2) c e = execute_rdb_tasks db (ts1 @ ts2) c e"
    if "TOOL_REGISTRY (name t) = None"
  proof -
    obtain R S where acc: "execute_loop db c e ts1 ([], []) = (R, S)"
      by (cases "execute_loop db c e ts1 ([], [])")
    show ?thesis using that
      by (simp add: execute_rdb_tasks_def execute_loop_append acc)
  qed
  show "execute_rdb_tasks db (ts1 @ t # ts2) c e = execute_rdb_tasks db (ts1 @ ts2) c e"
    if "TOOL_REGISTRY (name t) = Some fn \<and> call_tool db fn (inject_ids fn c e (args t)) = Inl x"
  proof -
    obtain R S where acc: "execute_loop db c e ts1 ([], []) = (R, S)"
      by (cases "execute_loop db c e ts1 ([], [])")
    show ?thesis using that
      by (simp add: execute_rdb_tasks_def execute_loop_append acc)
  qed
  show "execute_rdb_tasks db (ts1 @ t # ts2) c e =
          Inr (R1 @ rs @ R2, S1 @ [name t @ '': '' @ str_int (int (length rs)) @ '' rows''] @ S2)"
    if h: "TOOL_REGISTRY (name t) = Some fn \<and> call_tool db fn (inject_ids fn c e (args t)) = Inr rs \<and>
        execute_rdb_tasks db ts1 c e = Inr (R1, S1) \<and> execute_rdb_tasks db ts2 c e = Inr (R2, S2)"
  proof -
    from h have l1: "execute_loop db c e ts1 ([], []) = (R1, S1)"
      and l2: "execute_loop db c e ts2 ([], []) = (R2, S2)"
      by (simp_all add: execute_rdb_tasks_def)
    have "execute_loop db c e (ts1 @ t # ts2) ([], []) =
            execute_loop db c e ts2 (R1 @ rs, S1 @ [summary_line (name t) rs])"
      using h by (simp add: execute_loop_append l1)
    also have "\<dots> = ((R1 @ rs) @ R2, (S1 @ [summary_line (name t) rs]) @ S2)"
      by (subst execute_loop_acc) (simp add: l2)
    finally show ?thesis
      by (simp add: execute_rdb_tasks_def summary_line_def)
  qed
qed

text \<open>
  C4. \<open>execute_rdb_tasks\<close> always returns. A task whose name is not in the registry,
  or whose tool raises, changes nothing: the batch with it equals the batch without
  it. A task whose tool returns rows contributes these rows between the rows of the
  tasks before it and after it, and the line \<open><name>: <n> rows\<close> between their lines.
\<close>

theorem execute_rdb_tasks_batch:
  "(\<exists>rows sums. execute_rdb_tasks db tasks c e = Inr (rows, sums))
   \<and> execute_rdb_tasks db [] c e = Inr ([], [])
   \<and> (TOOL_REGISTRY (name tu) = None \<longrightarrow>
        execute_rdb_tasks db (ts1 @ tu # ts2) c e = execute_rdb_tasks db (ts1 @ ts2) c e)
   \<and> (TOOL_REGISTRY (name tf) = Some fn \<and>
       call_tool db fn (inject_ids fn c e (args tf)) = Inl x \<longrightarrow>
        execute_rdb_tasks db (ts1 @ tf # ts2) c e = execute_rdb_tasks db (ts1 @ ts2) c e)
   \<and> (TOOL_REGISTRY (name t) = Some fn' \<and>
       call_tool db fn' (inject_ids fn' c e (args t)) = Inr rs \<and>
       execute_rdb_tasks db ts1 c e = Inr (R1, S1) \<and>
       execute_rdb_tasks db ts2 c e = Inr (R2, S2) \<longrightarrow>
        execute_rdb_tasks db (ts1 @ t # ts2) c e =
          Inr (R1 @ rs @ R2,
               S1 @ [name t @ '': '' @ str_int (int (length rs)) @ '' rows''] @ S2))"
  using execute_rdb_tasks_parts [of db tasks c e tu ts1 ts2]
    execute_rdb_tasks_parts [of db tasks c e tf ts1 ts2 fn x]
    execute_rdb_tasks_parts [of db tasks c e t ts1 ts2 fn' _ rs R1 S1 R2 S2]
  by blast

theorem execute_rdb_tasks_batch_witness:
  "TOOL_REGISTRY (name \<lparr>name = ''no_such_tool'', args = []\<rparr>) = None
   \<and> execute_rdb_tasks echo_db
        ([\<lparr>name = ''get_employee_contact'', args = []\<rparr>] @
         \<lparr>name = ''no_such_tool'', args = []\<rparr> # []) (Some ''A'') (Some ''e1'') =
       execute_rdb_tasks echo_db
        ([\<lparr>name = ''get_employee_contact'', args = []\<rparr>] @ []) (Some ''A'') (Some ''e1'')
   \<and> call_tool echo_db Get_my_todos
        (inject_ids Get_my_todos (Some ''A'') (Some ''e1'') [(''limit'', PStr ''7'')]) =
       Inl (TypeError ''not supported between instances of int and str'')
   \<and> execute_rdb_tasks echo_db
        ([\<lparr>name = ''get_employee_contact'', args = []\<rparr>] @
         \<lparr>name = ''get_my_todos'', args = [(''limit'', PStr ''7'')]\<rparr> # []) (Some ''A'') (Some ''e1'') =
       execute_rdb_tasks echo_db
        ([\<lparr>name = ''get_employee_contact'', args = []\<rparr>] @ []) (Some ''A'') (Some ''e1'')
   \<and> execute_rdb_tasks echo_db
        ([\<lparr>name = ''get_employee_contact'', args = []\<rparr>] @
         \<lparr>name = ''get_my_mails'', args = [(''limit'', PInt 3)]\<rparr> # []) (Some ''A'') (Some ''e1'') =
       Inr ([[(''sql'', PStr (''SELECT emp_name, email, phone, work_phone, emp_id, dep_no, pos_no '' @
                              ''FROM employee WHERE com_id = :com_id AND emp_id = :emp_id LIMIT 5'')),
              (''com_id'', PStr ''A''), (''emp_id'', PStr ''e1'')]] @
            [[(''sql'', PStr (''SELECT mail_no, title, created_at, sender_id '' @
                              ''FROM mail WHERE sender_id = :emp_id LIMIT 3'')),
              (''emp_id'', PStr ''e1'')]] @ [],
            [''get_employee_contact: 1 rows''] @ [''get_my_mails: 1 rows''] @ [])"
proof -
  let ?c = "Some ''A''" and ?e = "Some ''e1''"
  let ?ts1 = "[\<lparr>name = ''get_employee_contact'', args = []\<rparr>]"
  let ?tu = "\<lparr>name = ''no_such_tool'', args = []\<rparr>"
  let ?tf = "\<lparr>name = ''get_my_todos'', args = [(''limit'', PStr ''7'')]\<rparr>"
  let ?t = "\<lparr>name = ''get_my_mails'', args = [(''limit'', PInt 3)]\<rparr>"
  let ?x = "TypeError ''not supported between instances of int and str''"
  let ?rs = "[[(''sql'', PStr (''SELECT mail_no, title, created_at, sender_id '' @
                              ''FROM mail WHERE sender_id = :emp_id LIMIT 3'')),
              (''emp_id'', PStr ''e1'')]]"
  let ?R1 = "[[(''sql'', PStr (''SELECT emp_name, email, phone, work_phone, emp_id, dep_no, pos_no '' @
                              ''FROM employee WHERE com_id = :com_id AND emp_id = :emp_id LIMIT 5'')),
              (''com_id'', PStr ''A''), (''emp_id'', PStr ''e1'')]]"
  let ?S1 = "[''get_employee_contact: 1 rows'']"
  have u: "TOOL_REGISTRY (name ?tu) = None" by code_simp
  have f1: "TOOL_REGISTRY (name ?tf) = Some Get_my_todos" by code_simp
  have f2: "call_tool echo_db Get_my_todos (inject_ids Get_my_todos ?c ?e (args ?tf)) = Inl ?x"
    by code_simp
  have s1: "TOOL_REGISTRY (name ?t) = Some Get_my_mails" by code_simp
  have s2: "call_tool echo_db Get_my_mails (inject_ids Get_my_mails ?c ?e (args ?t)) = Inr ?rs"
    by code_simp
  have s3: "execute_rdb_tasks echo_db ?ts1 ?c ?e = Inr (?R1, ?S1)" by code_simp
  have s4: "execute_rdb_tasks echo_db [] ?c ?e = Inr ([], [])" by code_simp
  have n: "name ?t @ '': '' @ str_int (int (length ?rs)) @ '' rows'' = ''get_my_mails: 1 rows''"
    by code_simp
  note th = execute_rdb_tasks_batch [where db = echo_db and c = ?c and e = ?e and ?ts1.0 = ?ts1
      and ?ts2.0 = "[]" and tu = ?tu and tf = ?tf and fn = Get_my_todos and x = ?x and t = ?t
      and fn' = Get_my_mails and rs = ?rs and ?R1.0 = ?R1 and ?S1.0 = ?S1 and ?R2.0 = "[]"
      and ?S2.0 = "[]"]
  from th u have c1: "execute_rdb_tasks echo_db (?ts1 @ ?tu # []) ?c ?e =
      execute_rdb_tasks echo_db (?ts1 @ []) ?c ?e" by blast
  from th f1 f2 have c2: "execute_rdb_tasks echo_db (?ts1 @ ?tf # []) ?c ?e =
      execute_rdb_tasks echo_db (?ts1 @ []) ?c ?e" by blast
  from th s1 s2 s3 s4 have c3: "execute_rdb_tasks echo_db (?ts1 @ ?t # []) ?c ?e =
      Inr (?R1 @ ?rs @ [],
           ?S1 @ [name ?t @ '': '' @ str_int (int (length ?rs)) @ '' rows''] @ [])" by blast
  from f2 have f2': "call_tool echo_db Get_my_todos
        (inject_ids Get_my_todos ?c ?e [(''limit'', PStr ''7'')]) = Inl ?x" by simp
  show ?thesis
    apply (intro conjI)
        apply (rule u)
       apply (rule c1)
      apply (rule f2')
     apply (rule c2)
    apply (rule c3 [unfolded n])
    done
qed

section \<open>Tenant identifiers in the task arguments\<close>

lemma setdefault_keeps: "map_of a k = Some v \<Longrightarrow> map_of (setdefault a k' v') k = Some v"
  by (auto simp: setdefault_def map_add_def split: option.splits)

lemma setdefault_adds: "map_of a k = None \<Longrightarrow> map_of (setdefault a k v) k = Some v"
  by (simp add: setdefault_def map_add_def)

lemma setdefault_other: "k \<noteq> k' \<Longrightarrow> map_of (setdefault a k' v') k = map_of a k"
  by (auto simp: setdefault_def map_add_def split: option.splits)

lemma inject_keeps: "map_of a k = Some v \<Longrightarrow> map_of (inject_ids fn c e a) k = Some v"
  by (auto simp: inject_ids_def Let_def setdefault_keeps split: option.splits)

lemma inject_com:
  "map_of a ''com_id'' = None \<Longrightarrow> declares fn ''com_id'' \<Longrightarrow> x \<noteq> [] \<Longrightarrow>
     map_of (inject_ids fn (Some x) e a) ''com_id'' = Some (PStr x)"
  by (auto simp: inject_ids_def Let_def setdefault_keeps setdefault_adds split: option.splits)

lemma inject_emp:
  "map_of a ''emp_id'' = None \<Longrightarrow> declares fn ''emp_id'' \<Longrightarrow> y \<noteq> [] \<Longrightarrow>
     map_of (inject_ids fn c (Some y) a) ''emp_id'' = Some (PStr y)"
  by (auto simp: inject_ids_def Let_def setdefault_adds setdefault_other split: option.splits)

text \<open>
  C10. A \<open>com_id\<close> or \<open>emp_id\<close> that the task's argument dict already binds reaches the
  tool unchanged; the identifier of the tenant context is put in only for an absent
  key. So a task can run a tool with the company of another tenant: under the tenant
  \<open>A\<close>, the task \<open>get_approval_lines\<close> with \<open>com_id = B\<close> binds \<open>B\<close> in its statement.
\<close>

theorem planner_ids_pass_through:
  "(map_of a ''com_id'' = Some v \<longrightarrow>
      map_of (inject_ids fn c e a) ''com_id'' = Some v \<and>
      param fn (inject_ids fn c e a) ''com_id'' = v)
   \<and> (map_of a ''emp_id'' = Some w \<longrightarrow>
      map_of (inject_ids fn c e a) ''emp_id'' = Some w \<and>
      param fn (inject_ids fn c e a) ''emp_id'' = w)
   \<and> (map_of a ''com_id'' = None \<and> declares fn ''com_id'' \<and> x \<noteq> [] \<longrightarrow>
      map_of (inject_ids fn (Some x) e a) ''com_id'' = Some (PStr x))
   \<and> (map_of a ''emp_id'' = None \<and> declares fn ''emp_id'' \<and> y \<noteq> [] \<longrightarrow>
      map_of (inject_ids fn c (Some y) a) ''emp_id'' = Some (PStr y))
   \<and> execute_rdb_tasks echo_db
        [\<lparr>name = ''get_approval_lines'', args = [(''com_id'', PStr ''B'')]\<rparr>]
        (Some ''A'') (Some ''e1'') =
       Inr ([[(''sql'', PStr (''SELECT apprl_no, doc_no, appr_stat, ended_at '' @
                              ''FROM approval_line WHERE com_id = :com_id AND emp_id = :emp_id '' @
                              ''ORDER BY ended_at DESC LIMIT 50'')),
              (''com_id'', PStr ''B''), (''emp_id'', PStr ''e1'')]],
            [''get_approval_lines: 1 rows''])"
proof (intro conjI impI)
  assume h: "map_of a ''com_id'' = Some v"
  then show "map_of (inject_ids fn c e a) ''com_id'' = Some v" by (rule inject_keeps)
  then show "param fn (inject_ids fn c e a) ''com_id'' = v" by (simp add: param_def)
next
  assume h: "map_of a ''emp_id'' = Some w"
  then show "map_of (inject_ids fn c e a) ''emp_id'' = Some w" by (rule inject_keeps)
  then show "param fn (inject_ids fn c e a) ''emp_id'' = w" by (simp add: param_def)
next
  assume "map_of a ''com_id'' = None \<and> declares fn ''com_id'' \<and> x \<noteq> []"
  then show "map_of (inject_ids fn (Some x) e a) ''com_id'' = Some (PStr x)"
    by (simp add: inject_com)
next
  assume "map_of a ''emp_id'' = None \<and> declares fn ''emp_id'' \<and> y \<noteq> []"
  then show "map_of (inject_ids fn c (Some y) a) ''emp_id'' = Some (PStr y)"
    by (simp add: inject_emp)
next
  show "execute_rdb_tasks echo_db
        [\<lparr>name = ''get_approval_lines'', args = [(''com_id'', PStr ''B'')]\<rparr>]
        (Some ''A'') (Some ''e1'') =
       Inr ([[(''sql'', PStr (''SELECT apprl_no, doc_no, appr_stat, ended_at '' @
                              ''FROM approval_line WHERE com_id = :com_id AND emp_id = :emp_id '' @
                              ''ORDER BY ended_at DESC LIMIT 50'')),
              (''com_id'', PStr ''B''), (''emp_id'', PStr ''e1'')]],
            [''get_approval_lines: 1 rows''])"
    by code_simp
qed

theorem planner_ids_pass_through_witness:
  "map_of [(''com_id'', PStr ''B'')] ''com_id'' = Some (PStr ''B'')
   \<and> param Get_approval_lines
        (inject_ids Get_approval_lines (Some ''A'') (Some ''e1'') [(''com_id'', PStr ''B'')])
        ''com_id'' = PStr ''B''
   \<and> map_of [(''emp_id'', PStr ''e2'')] ''emp_id'' = Some (PStr ''e2'')
   \<and> param Get_approval_lines
        (inject_ids Get_approval_lines (Some ''A'') (Some ''e1'') [(''emp_id'', PStr ''e2'')])
        ''emp_id'' = PStr ''e2''
   \<and> map_of [(''limit'', PInt 3)] ''com_id'' = None
   \<and> declares Get_approval_lines ''com_id''
   \<and> map_of (inject_ids Get_approval_lines (Some ''A'') (Some ''e1'') [(''limit'', PInt 3)])
        ''com_id'' = Some (PStr ''A'')
   \<and> map_of [(''limit'', PInt 3)] ''emp_id'' = None
   \<and> declares Get_approval_lines ''emp_id''
   \<and> map_of (inject_ids Get_approval_lines (Some ''A'') (Some ''e1'') [(''limit'', PInt 3)])
        ''emp_id'' = Some (PStr ''e1'')"
  using planner_ids_pass_through [of "[(''com_id'', PStr ''B'')]" "PStr ''B''" Get_approval_lines
      "Some ''A''" "Some ''e1''"]
    planner_ids_pass_through [of "[(''emp_id'', PStr ''e2'')]" _ Get_approval_lines
      "Some ''A''" "Some ''e1''" "PStr ''e2''"]
    planner_ids_pass_through [of "[(''limit'', PInt 3)]" _ Get_approval_lines
      "Some ''A''" "Some ''e1''" _ "''A''" "''e1''"]
  by (simp add: declares_def)


text \<open>
  C2, at two inputs under the tenant \<open>(A, e1)\<close>. The statement of \<open>get_my_mails\<close> has no
  condition on the company and binds no \<open>com_id\<close>; and the task \<open>get_my_todos\<close> with its
  own \<open>com_id = B\<close>, \<open>emp_id = e2\<close> runs its statement for that company and employee.
\<close>

theorem tenant_scope_broken:
  "execute_rdb_tasks echo_db [\<lparr>name = ''get_my_mails'', args = []\<rparr>] (Some ''A'') (Some ''e1'') =
     Inr ([[(''sql'', PStr (''SELECT mail_no, title, created_at, sender_id '' @
                            ''FROM mail WHERE sender_id = :emp_id LIMIT 50'')),
            (''emp_id'', PStr ''e1'')]],
          [''get_my_mails: 1 rows''])
   \<and> execute_rdb_tasks echo_db
        [\<lparr>name = ''get_my_todos'', args = [(''com_id'', PStr ''B''), (''emp_id'', PStr ''e2'')]\<rparr>]
        (Some ''A'') (Some ''e1'') =
     Inr ([[(''sql'', PStr (''SELECT todo_no, title, is_done, created_at, updated_at '' @
                            ''FROM todo_list WHERE com_id = :com_id AND emp_id = :emp_id LIMIT 50'')),
            (''com_id'', PStr ''B''), (''emp_id'', PStr ''e2'')]],
          [''get_my_todos: 1 rows''])"
  by (intro conjI; code_simp)

section \<open>The planner\<close>

text \<open>
  C3, as the code has it. \<open>plan_query\<close> always returns a plan. When the model call
  raises, or when the output of the model is not empty and \<open>json.loads\<close> raises on it
  or the validation of the parsed value raises, the plan is the default plan: mode
  \<open>rag\<close> and the single retrieval task with the question as its query and \<open>top_k = 5\<close>.
  When the output is empty or \<open>None\<close>, the text \<open>{}\<close> is parsed in its place, and the
  plan is what parsing and validating \<open>{}\<close> give, the default plan if either raises.
\<close>

theorem plan_query_fallback:
  "(\<exists>p. plan_query env q h emp com = Inr p)
   \<and> (plan_completion env (user_block q h) = Inl x \<longrightarrow>
        plan_query env q h emp com = Inr (default_plan q))
   \<and> (plan_completion env (user_block q h) = Inr (Some out) \<and> out \<noteq> [] \<and>
       json_loads env out = Inl x \<longrightarrow>
        plan_query env q h emp com = Inr (default_plan q))
   \<and> (plan_completion env (user_block q h) = Inr (Some out) \<and> out \<noteq> [] \<and>
       json_loads env out = Inr j \<and> QueryPlan_of env j = Inl x \<longrightarrow>
        plan_query env q h emp com = Inr (default_plan q))
   \<and> (plan_completion env (user_block q h) = Inr None \<or>
       plan_completion env (user_block q h) = Inr (Some []) \<longrightarrow>
        plan_query env q h emp com =
          (case json_loads env ''{}'' of
             Inl e \<Rightarrow> Inr (default_plan q)
           | Inr j \<Rightarrow> (case QueryPlan_of env j of
                         Inl e \<Rightarrow> Inr (default_plan q)
                       | Inr p \<Rightarrow> Inr p)))
   \<and> default_plan q =
       \<lparr>mode = Rag, rag_tasks = [\<lparr>query = q, top_k = 5\<rparr>], rdb_tasks = [], answer_style = None\<rparr>"
proof -
  have hd: "plan_handler q z = Inr (default_plan q)" for z
    by (cases z) simp_all
  show ?thesis
    by (auto simp: plan_query_def hd default_plan_def or_empty_object_def Let_def
        split: sum.splits)
qed

theorem plan_query_fallback_witness:
  "plan_completion silent_env (user_block ''q'' []) = Inl (RuntimeError ''planner timeout'')
   \<and> plan_query silent_env ''q'' [] (Some ''e1'') (Some ''A'') = Inr (default_plan ''q'')
   \<and> json_loads (silent_env\<lparr>plan_completion := (\<lambda>u. Inr (Some ''not json''))\<rparr>) ''not json'' =
       Inl (JSONDecodeError ''no json'')
   \<and> plan_query (silent_env\<lparr>plan_completion := (\<lambda>u. Inr (Some ''not json''))\<rparr>)
         ''q'' [] (Some ''e1'') (Some ''A'') = Inr (default_plan ''q'')
   \<and> QueryPlan_of (silent_env\<lparr>plan_completion := (\<lambda>u. Inr (Some ''[1]'')),
                                json_loads := (\<lambda>s. Inr (JArr [JInt 1]))\<rparr>) (JArr [JInt 1]) =
         Inl (ValidationError ''invalid plan'')
   \<and> plan_query (silent_env\<lparr>plan_completion := (\<lambda>u. Inr (Some ''[1]'')),
                              json_loads := (\<lambda>s. Inr (JArr [JInt 1]))\<rparr>)
         ''q'' [] (Some ''e1'') (Some ''A'') = Inr (default_plan ''q'')
   \<and> plan_completion empty_output_env (user_block ''q'' []) = Inr (Some [])
   \<and> plan_query empty_output_env ''q'' [] (Some ''e1'') (Some ''A'') =
       Inr \<lparr>mode = Rag, rag_tasks = [], rdb_tasks = [], answer_style = None\<rparr>"
proof -
  let ?e2 = "silent_env\<lparr>plan_completion := (\<lambda>u. Inr (Some ''not json''))\<rparr>"
  let ?e3 = "silent_env\<lparr>plan_completion := (\<lambda>u. Inr (Some ''[1]'')),
                              json_loads := (\<lambda>s. Inr (JArr [JInt 1]))\<rparr>"
  note t1 = plan_query_fallback [where env = silent_env and q = "''q''" and h = "[]"
      and emp = "Some ''e1''" and com = "Some ''A''" and x = "RuntimeError ''planner timeout''"]
  note t2 = plan_query_fallback [where env = ?e2 and q = "''q''" and h = "[]"
      and emp = "Some ''e1''" and com = "Some ''A''" and x = "JSONDecodeError ''no json''"
      and out = "''not json''"]
  note t3 = plan_query_fallback [where env = ?e3 and q = "''q''" and h = "[]"
      and emp = "Some ''e1''" and com = "Some ''A''" and x = "ValidationError ''invalid plan''"
      and out = "''[1]''" and j = "JArr [JInt 1]"]
  note t4 = plan_query_fallback [where env = empty_output_env and q = "''q''" and h = "[]"
      and emp = "Some ''e1''" and com = "Some ''A''"]
  have h1: "plan_completion silent_env (user_block ''q'' []) = Inl (RuntimeError ''planner timeout'')"
    by (simp add: silent_env_def)
  have h2: "plan_completion ?e2 (user_block ''q'' []) = Inr (Some ''not json'')"
    "json_loads ?e2 ''not json'' = Inl (JSONDecodeError ''no json'')"
    by (simp_all add: silent_env_def)
  have h3: "plan_completion ?e3 (user_block ''q'' []) = Inr (Some ''[1]'')"
    "json_loads ?e3 ''[1]'' = Inr (JArr [JInt 1])"
    "QueryPlan_of ?e3 (JArr [JInt 1]) = Inl (ValidationError ''invalid plan'')"
    by (simp_all add: silent_env_def)
  have h4: "plan_completion empty_output_env (user_block ''q'' []) = Inr (Some [])"
    by (simp add: empty_output_env_def)
  have j4: "json_loads empty_output_env ''{}'' = Inr (JObj [])"
    "QueryPlan_of empty_output_env (JObj []) =
       Inr \<lparr>mode = Rag, rag_tasks = [], rdb_tasks = [], answer_style = None\<rparr>"
    by (simp_all add: empty_output_env_def)
  from t1 h1 have c1: "plan_query silent_env ''q'' [] (Some ''e1'') (Some ''A'') =
      Inr (default_plan ''q'')" by blast
  from t2 h2 have c2: "plan_query ?e2 ''q'' [] (Some ''e1'') (Some ''A'') =
      Inr (default_plan ''q'')" by simp
  from t3 h3 have c3: "plan_query ?e3 ''q'' [] (Some ''e1'') (Some ''A'') =
      Inr (default_plan ''q'')" by simp
  from t4 h4 have c4: "plan_query empty_output_env ''q'' [] (Some ''e1'') (Some ''A'') =
      Inr \<lparr>mode = Rag, rag_tasks = [], rdb_tasks = [], answer_style = None\<rparr>"
    by (simp add: j4)
  show ?thesis using h1 c1 h2(2) c2 h3(3) c3 h4 c4 by blast
qed

text \<open>
  An empty output fails JSON parsing, yet the plan returned is not the default plan:
  \<open>{}\<close> is parsed instead, and the plan of the field defaults has no retrieval task.
\<close>

theorem empty_output_counterexample:
  "plan_completion empty_output_env (user_block ''q'' []) = Inr (Some [])
   \<and> json_loads empty_output_env [] = Inl (JSONDecodeError ''Expecting value'')
   \<and> plan_query empty_output_env ''q'' [] (Some ''e1'') (Some ''A'') =
       Inr \<lparr>mode = Rag, rag_tasks = [], rdb_tasks = [], answer_style = None\<rparr>
   \<and> plan_query empty_output_env ''q'' [] (Some ''e1'') (Some ''A'') \<noteq> Inr (default_plan ''q'')"
  by (intro conjI; code_simp)

section \<open>The prompt of the synthesizer\<close>

text \<open>
  C7, at two inputs. With one history turn the prompt is the instructions and the
  rendered history, and holds neither the question nor either evidence text. With no
  history it is the question and the two evidence texts, and holds neither the
  instructions nor the style hint.
\<close>

theorem user_prompt_loses_parts:
  "user_prompt ''Q?'' [\<lparr>role = ''user'', content = ''hi''\<rparr>] ''a | b'' ''ctx'' None =
     synth_instructions @ nl @ nl @ prev_dialog_tag @ ''User: hi'' @ nl @ nl
   \<and> \<not> sublist ''Q?'' (user_prompt ''Q?'' [\<lparr>role = ''user'', content = ''hi''\<rparr>] ''a | b'' ''ctx'' None)
   \<and> \<not> sublist ''a | b'' (user_prompt ''Q?'' [\<lparr>role = ''user'', content = ''hi''\<rparr>] ''a | b'' ''ctx'' None)
   \<and> \<not> sublist ''ctx'' (user_prompt ''Q?'' [\<lparr>role = ''user'', content = ''hi''\<rparr>] ''a | b'' ''ctx'' None)
   \<and> user_prompt ''Q?'' [] ''a | b'' ''ctx'' (Some ''summary'') =
       question_tag @ ''Q?'' @ nl @ nl @ db_tag @ ''a | b'' @ nl @ nl @ rag_tag @ ''ctx''
   \<and> \<not> sublist synth_instructions (user_prompt ''Q?'' [] ''a | b'' ''ctx'' (Some ''summary''))
   \<and> \<not> sublist ''summary'' (user_prompt ''Q?'' [] ''a | b'' ''ctx'' (Some ''summary''))"
  by (intro conjI; code_simp)

section \<open>The callback log\<close>

lemma post_cases:
  assumes "post_with_retry env url key ev ch = (r, ch')"
  shows "(r = Inr () \<and> delivered ch' = delivered ch @ [ev] \<and> post_outcome env (attempts ch) url key ev = None)
       \<or> ((\<exists>x. r = Inl x) \<and> delivered ch' = delivered ch)"
  using assms by (auto simp: post_with_retry_def split: option.splits)

lemma deliver_chunks_log:
  assumes "deliver_chunks env url key mid cs ch = (r, ch')"
  shows "\<exists>k\<le>length cs. delivered ch' = delivered ch @ map (chunk_event mid) (take k cs)
           \<and> (r = Inr () \<longrightarrow> k = length cs)"
  using assms
proof (induction cs arbitrary: ch)
  case Nil
  then show ?case by auto
next
  case (Cons c cs)
  obtain r1 ch1 where p: "post_with_retry env url key (chunk_event mid c) ch = (r1, ch1)"
    by (cases "post_with_retry env url key (chunk_event mid c) ch")
  show ?case
  proof (cases r1)
    case (Inl x)
    with Cons.prems p have "r = Inl x" "ch' = ch1" by simp_all
    moreover from post_cases[OF p] Inl have "delivered ch1 = delivered ch" by auto
    ultimately show ?thesis by (intro exI[of _ 0]) simp
  next
    case (Inr u)
    with Cons.prems p have d: "deliver_chunks env url key mid cs ch1 = (r, ch')" by simp
    from post_cases[OF p] Inr have d1: "delivered ch1 = delivered ch @ [chunk_event mid c]" by auto
    from Cons.IH[OF d] obtain k where k: "k \<le> length cs"
      "delivered ch' = delivered ch1 @ map (chunk_event mid) (take k cs)"
      "r = Inr () \<longrightarrow> k = length cs" by blast
    show ?thesis using k d1 by (intro exI[of _ "Suc k"]) simp
  qed
qed

lemma deliver_chunks_ok:
  assumes "\<forall>n u k ev. post_outcome env n u k ev = None"
  shows "deliver_chunks env url key mid cs ch =
     (Inr (), \<lparr>attempts = attempts ch + length cs,
               delivered = delivered ch @ map (chunk_event mid) cs\<rparr>)"
  using assms
  by (induction cs arbitrary: ch) (simp_all add: post_with_retry_def)


lemma run_body_log:
  assumes "run_body env req url ch = (r, ch')"
  shows "(r = Inr () \<and>
            delivered ch' = delivered ch @ map (chunk_event (messageId req)) (emitted_chunks env req)
                              @ [done_event (messageId req)])
       \<or> ((\<exists>x. r = Inl x) \<and>
            (\<exists>k. delivered ch' =
                   delivered ch @ map (chunk_event (messageId req)) (take k (emitted_chunks env req))))"
proof (cases "evidence env req")
  case (Inl e)
  with assms have "r = Inl e" "ch' = ch" by (simp_all add: run_body_def)
  then show ?thesis by (intro disjI2) (auto intro: exI[of _ 0])
next
  case (Inr pdr)
  obtain plan db_text rag_text where pdr: "pdr = (plan, db_text, rag_text)" by (cases pdr)
  note ev = Inr[unfolded pdr]
  let ?mid = "messageId req" and ?key = "callbackKey req"
  show ?thesis
  proof (cases "db_text = [] \<and> rag_text = []")
    case True
    then have cs: "emitted_chunks env req = [refusal_msg]"
      by (simp add: emitted_chunks_def ev)
    obtain r1 ch1 where p1: "post_with_retry env url ?key (chunk_event ?mid refusal_msg) ch = (r1, ch1)"
      by (cases "post_with_retry env url ?key (chunk_event ?mid refusal_msg) ch")
    show ?thesis
    proof (cases r1)
      case (Inl x)
      with assms ev True p1 have "r = Inl x" "ch' = ch1" by (simp_all add: run_body_def)
      moreover from post_cases[OF p1] Inl have "delivered ch1 = delivered ch" by auto
      ultimately show ?thesis by (intro disjI2) (auto intro: exI[of _ 0])
    next
      case (Inr u)
      with assms ev True p1
      have p2: "post_with_retry env url ?key (done_event ?mid) ch1 = (r, ch')"
        by (simp add: run_body_def)
      from post_cases[OF p1] Inr
      have d1: "delivered ch1 = delivered ch @ [chunk_event ?mid refusal_msg]" by auto
      from post_cases[OF p2] show ?thesis
      proof
        assume "r = Inr () \<and> delivered ch' = delivered ch1 @ [done_event ?mid] \<and>
            post_outcome env (attempts ch1) url ?key (done_event ?mid) = None"
        then show ?thesis using d1 cs by simp
      next
        assume "(\<exists>x. r = Inl x) \<and> delivered ch' = delivered ch1"
        then show ?thesis using d1 cs by (intro disjI2) (auto intro: exI[of _ 1])
      qed
    qed
  next
    case False
    define stream where "stream = stream_final_answer env (question req) (history req) db_text rag_text
                        (answer_style plan) (mode plan)"
    from False have cs: "emitted_chunks env req = fst stream"
      by (auto simp add: emitted_chunks_def ev stream_def)
    obtain r1 ch1 where d: "deliver_chunks env url ?key ?mid (fst stream) ch = (r1, ch1)"
      by (cases "deliver_chunks env url ?key ?mid (fst stream) ch")
    from deliver_chunks_log[OF d] obtain k where k: "k \<le> length (fst stream)"
      "delivered ch1 = delivered ch @ map (chunk_event ?mid) (take k (fst stream))"
      "r1 = Inr () \<longrightarrow> k = length (fst stream)" by blast
    have body: "run_body env req url ch =
        (case (r1, ch1) of
              (Inl e, ch1) \<Rightarrow> (Inl e, ch1)
            | (Inr u, ch1) \<Rightarrow>
                (case snd stream of
                   Some e \<Rightarrow> (Inl e, ch1)
                 | None \<Rightarrow> post_with_retry env url ?key (done_event ?mid) ch1))"
      using False by (auto simp add: run_body_def ev Let_def stream_def[symmetric] d)
    show ?thesis
    proof (cases r1)
      case (Inl x)
      with assms body have "r = Inl x" "ch' = ch1" by simp_all
      then show ?thesis using k cs by (intro disjI2) auto
    next
      case (Inr u)
      with k have kl: "delivered ch1 = delivered ch @ map (chunk_event ?mid) (fst stream)" by simp
      show ?thesis
      proof (cases "snd stream")
        case (Some x)
        with assms body Inr have "r = Inl x" "ch' = ch1" by simp_all
        then show ?thesis using kl cs
          by (intro disjI2) (auto intro: exI[of _ "length (fst stream)"])
      next
        case None
        with assms body Inr
        have p2: "post_with_retry env url ?key (done_event ?mid) ch1 = (r, ch')" by simp
        from post_cases[OF p2] show ?thesis
        proof
          assume "r = Inr () \<and> delivered ch' = delivered ch1 @ [done_event ?mid] \<and>
            post_outcome env (attempts ch1) url ?key (done_event ?mid) = None"
          then show ?thesis using kl cs by simp
        next
          assume "(\<exists>x. r = Inl x) \<and> delivered ch' = delivered ch1"
          then show ?thesis using kl cs
            by (intro disjI2) (auto intro: exI[of _ "length (fst stream)"])
        qed
      qed
    qed
  qed
qed

lemma run_chatbot_log:
  "\<exists>k term. snd (run_chatbot env req) =
       map (chunk_event (messageId req)) (take k (emitted_chunks env req)) @ term
     \<and> (term = [] \<or> term = [done_event (messageId req)]
          \<or> (\<exists>m. term = [error_event (messageId req) m]))"
proof (cases "validate_callback_url env (callbackUrl req)")
  case (Inl e)
  then have "snd (run_chatbot env req) = []" by (simp add: run_chatbot_def)
  then show ?thesis by (intro exI[of _ 0] exI[of _ "[]"]) simp
next
  case (Inr url)
  let ?mid = "messageId req" and ?cs = "emitted_chunks env req"
  obtain r ch' where b: "run_body env req url \<lparr>attempts = 0, delivered = []\<rparr> = (r, ch')"
    by (cases "run_body env req url \<lparr>attempts = 0, delivered = []\<rparr>")
  from run_body_log[OF b] show ?thesis
  proof
    assume a: "r = Inr () \<and> delivered ch' = delivered \<lparr>attempts = 0, delivered = []\<rparr> @
        map (chunk_event ?mid) ?cs @ [done_event ?mid]"
    then have "snd (run_chatbot env req) = map (chunk_event ?mid) ?cs @ [done_event ?mid]"
      using Inr b by (simp add: run_chatbot_def)
    then show ?thesis
      by (intro exI[of _ "length ?cs"] exI[of _ "[done_event ?mid]"]) simp
  next
    assume a: "(\<exists>x. r = Inl x) \<and> (\<exists>k. delivered ch' = delivered \<lparr>attempts = 0, delivered = []\<rparr> @
        map (chunk_event ?mid) (take k ?cs))"
    then obtain x k where x: "r = Inl x"
      and k: "delivered ch' = map (chunk_event ?mid) (take k ?cs)" by auto
    obtain r2 ch2 where p: "post_with_retry env url (callbackKey req)
                       (error_event ?mid (str_exn x)) ch' = (r2, ch2)"
      by (cases "post_with_retry env url (callbackKey req) (error_event ?mid (str_exn x)) ch'")
    have log: "snd (run_chatbot env req) = delivered ch2"
      using Inr b x p by (cases r2) (simp_all add: run_chatbot_def)
    from post_cases[OF p] show ?thesis
    proof
      assume "r2 = Inr () \<and> delivered ch2 = delivered ch' @ [error_event ?mid (str_exn x)] \<and>
          post_outcome env (attempts ch') url (callbackKey req) (error_event ?mid (str_exn x)) = None"
      then show ?thesis using log k
        by (intro exI[of _ k] exI[of _ "[error_event ?mid (str_exn x)]"]) auto
    next
      assume "(\<exists>x. r2 = Inl x) \<and> delivered ch2 = delivered ch'"
      then show ?thesis using log k
        by (intro exI[of _ k] exI[of _ "[]"]) auto
    qed
  qed
qed


lemma chunk_event_not_done [simp]: "\<not> is_done (chunk_event mid d)" "success (chunk_event mid d)"
  by (simp_all add: chunk_event_def)

lemma done_event_done [simp]: "is_done (done_event mid)" "success (done_event mid)"
  by (simp_all add: done_event_def)

lemma error_event_done [simp]: "is_done (error_event mid m)" "\<not> success (error_event mid m)"
  by (simp_all add: error_event_def)

lemma filter_chunks_not_done [simp]:
  "filter (\<lambda>ev. \<not> is_done ev) (map (chunk_event mid) xs) = map (chunk_event mid) xs"
  by (induction xs) simp_all

lemma filter_chunks_done [simp]: "filter is_done (map (chunk_event mid) xs) = []"
  by (induction xs) simp_all

lemma log_shape_props:
  assumes "log = map (chunk_event mid) xs @ term"
    and "term = [] \<or> term = [done_event mid] \<or> (\<exists>m. term = [error_event mid m])"
  shows "filter (\<lambda>ev. \<not> is_done ev) log = map (chunk_event mid) xs"
    and "length (filter is_done log) \<le> 1"
    and "\<forall>i<length log. is_done (log ! i) \<longrightarrow> Suc i = length log"
    and "\<forall>ev\<in>set log. \<not> success ev \<longrightarrow> is_done ev"
proof -
  show "filter (\<lambda>ev. \<not> is_done ev) log = map (chunk_event mid) xs"
    using assms by auto
  show "length (filter is_done log) \<le> 1"
    using assms by auto
  show "\<forall>ev\<in>set log. \<not> success ev \<longrightarrow> is_done ev"
    using assms by auto
  show "\<forall>i<length log. is_done (log ! i) \<longrightarrow> Suc i = length log"
  proof (intro allI impI)
    fix i assume i: "i < length log" and d: "is_done (log ! i)"
    have "\<not> i < length xs"
    proof
      assume "i < length xs"
      then have "log ! i = chunk_event mid (xs ! i)"
        using assms(1) by (simp add: nth_append)
      with d show False by simp
    qed
    moreover have "length term \<le> 1" using assms(2) by auto
    ultimately show "Suc i = length log" using i assms(1) by simp
  qed
qed

lemma run_chatbot_ok:
  assumes v: "validate_callback_url env (callbackUrl req) = Inr url"
    and ok: "\<forall>n u k ev. post_outcome env n u k ev = None"
  shows "run_chatbot env req =
     (Inr (), map (chunk_event (messageId req)) (emitted_chunks env req) @
        [case evidence env req of
           Inl e \<Rightarrow> error_event (messageId req) (str_exn e)
         | Inr (plan, db_text, rag_text) \<Rightarrow>
             if db_text = [] \<and> rag_text = [] then done_event (messageId req)
             else (case snd (stream_final_answer env (question req) (history req) db_text rag_text
                               (answer_style plan) (mode plan)) of
                     None \<Rightarrow> done_event (messageId req)
                   | Some e \<Rightarrow> error_event (messageId req) (str_exn e))])"
proof (cases "evidence env req")
  case (Inl e)
  then show ?thesis
    by (simp add: run_chatbot_def v run_body_def emitted_chunks_def post_with_retry_def ok)
next
  case (Inr pdr)
  obtain plan db_text rag_text where pdr: "pdr = (plan, db_text, rag_text)" by (cases pdr)
  note ev = Inr[unfolded pdr]
  show ?thesis
  proof (cases "db_text = [] \<and> rag_text = []")
    case True
    then show ?thesis
      by (simp add: run_chatbot_def v run_body_def emitted_chunks_def post_with_retry_def ok ev)
  next
    case False
    then show ?thesis
      by (auto simp add: run_chatbot_def v run_body_def emitted_chunks_def post_with_retry_def ok ev
          deliver_chunks_ok[OF ok] Let_def split: option.splits)
  qed
qed

lemma run_chatbot_invalid:
  "validate_callback_url env (callbackUrl req) = Inl e \<Longrightarrow> run_chatbot env req = (Inl e, [])"
  by (simp add: run_chatbot_def)

lemma run_chatbot_body_ok:
  assumes v: "validate_callback_url env (callbackUrl req) = Inr url"
    and b: "run_body env req url \<lparr>attempts = 0, delivered = []\<rparr> = (Inr u, ch)"
  shows "length (filter is_done (snd (run_chatbot env req))) = 1"
proof -
  from run_body_log[OF b]
  have "delivered ch = map (chunk_event (messageId req)) (emitted_chunks env req) @
      [done_event (messageId req)]" by auto
  moreover have "snd (run_chatbot env req) = delivered ch"
    using v b by (simp add: run_chatbot_def)
  ultimately show ?thesis by simp
qed

lemma run_chatbot_body_raises:
  assumes v: "validate_callback_url env (callbackUrl req) = Inr url"
    and b: "run_body env req url \<lparr>attempts = 0, delivered = []\<rparr> = (Inl x, ch)"
  shows "length (filter is_done (snd (run_chatbot env req))) = 1 \<longleftrightarrow>
     post_outcome env (attempts ch) url (callbackKey req)
       (error_event (messageId req) (str_exn x)) = None"
proof -
  from run_body_log[OF b] obtain k where
    d: "delivered ch = map (chunk_event (messageId req)) (take k (emitted_chunks env req))"
    by auto
  show ?thesis
  proof (cases "post_outcome env (attempts ch) url (callbackKey req)
       (error_event (messageId req) (str_exn x))")
    case None
    then have "snd (run_chatbot env req) = delivered ch @ [error_event (messageId req) (str_exn x)]"
      using v b by (simp add: run_chatbot_def post_with_retry_def)
    then show ?thesis using None d by simp
  next
    case (Some e)
    then have "snd (run_chatbot env req) = delivered ch"
      using v b by (simp add: run_chatbot_def post_with_retry_def)
    then show ?thesis using Some d by simp
  qed
qed

lemma run_chatbot_terminal_posts:
  assumes v: "validate_callback_url env (callbackUrl req) = Inr url"
    and t: "\<forall>n u k ev. is_done ev \<longrightarrow> post_outcome env n u k ev = None"
  shows "length (filter is_done (snd (run_chatbot env req))) = 1"
proof -
  obtain r ch where b: "run_body env req url \<lparr>attempts = 0, delivered = []\<rparr> = (r, ch)"
    by (cases "run_body env req url \<lparr>attempts = 0, delivered = []\<rparr>")
  show ?thesis
  proof (cases r)
    case (Inl x)
    have "post_outcome env (attempts ch) url (callbackKey req)
       (error_event (messageId req) (str_exn x)) = None" using t by simp
    then show ?thesis using run_chatbot_body_raises[OF v b[unfolded Inl]] by simp
  next
    case (Inr u)
    then show ?thesis using run_chatbot_body_ok[OF v b[unfolded Inr]] by simp
  qed
qed

text \<open>
  C1, as the code has it. The delivered events that are not terminal are, in order,
  the chunk events of a prefix of the emitted chunks, and of all of them when the
  callback URL validates and no post raises. At most one terminal event
  (\<open>done = true\<close>) is delivered, and a terminal event is the last event delivered. Every
  delivered event with \<open>success = false\<close> has \<open>done = true\<close>. Exactly one terminal event
  is delivered if and only if the callback URL validates and either the \<open>try\<close> block
  completes or the post of the error event returns; so it is whenever the URL validates
  and every post of a terminal event returns. When the URL does not validate no event
  is delivered.
\<close>

theorem callback_log_order:
  "(\<exists>k. filter (\<lambda>ev. \<not> is_done ev) (snd (run_chatbot env req)) =
          map (chunk_event (messageId req)) (take k (emitted_chunks env req)))
   \<and> length (filter is_done (snd (run_chatbot env req))) \<le> 1
   \<and> (\<forall>i<length (snd (run_chatbot env req)).
         is_done (snd (run_chatbot env req) ! i) \<longrightarrow> Suc i = length (snd (run_chatbot env req)))
   \<and> (\<forall>ev\<in>set (snd (run_chatbot env req)). \<not> success ev \<longrightarrow> is_done ev)
   \<and> (validate_callback_url env (callbackUrl req) = Inr url \<and>
       (\<forall>n u k ev. post_outcome env n u k ev = None) \<longrightarrow>
         filter (\<lambda>ev. \<not> is_done ev) (snd (run_chatbot env req)) =
           map (chunk_event (messageId req)) (emitted_chunks env req)
         \<and> length (filter is_done (snd (run_chatbot env req))) = 1)
   \<and> (validate_callback_url env (callbackUrl req) = Inr url \<and>
       (\<forall>n u k ev. is_done ev \<longrightarrow> post_outcome env n u k ev = None) \<longrightarrow>
         length (filter is_done (snd (run_chatbot env req))) = 1)
   \<and> (validate_callback_url env (callbackUrl req) = Inr url \<and>
       run_body env req url \<lparr>attempts = 0, delivered = []\<rparr> = (Inr v, ch) \<longrightarrow>
         length (filter is_done (snd (run_chatbot env req))) = 1)
   \<and> (validate_callback_url env (callbackUrl req) = Inr url \<and>
       run_body env req url \<lparr>attempts = 0, delivered = []\<rparr> = (Inl x, ch) \<longrightarrow>
         (length (filter is_done (snd (run_chatbot env req))) = 1 \<longleftrightarrow>
          post_outcome env (attempts ch) url (callbackKey req)
            (error_event (messageId req) (str_exn x)) = None))
   \<and> (validate_callback_url env (callbackUrl req) = Inl e \<longrightarrow> snd (run_chatbot env req) = [])"
proof -
  obtain k fin where log: "snd (run_chatbot env req) =
       map (chunk_event (messageId req)) (take k (emitted_chunks env req)) @ fin"
     and fin: "fin = [] \<or> fin = [done_event (messageId req)]
          \<or> (\<exists>m. fin = [error_event (messageId req) m])"
    using run_chatbot_log[of env req] by blast
  note props = log_shape_props[OF log fin]
  have last: "filter (\<lambda>ev. \<not> is_done ev) (snd (run_chatbot env req)) =
           map (chunk_event (messageId req)) (emitted_chunks env req)
         \<and> length (filter is_done (snd (run_chatbot env req))) = 1"
    if "validate_callback_url env (callbackUrl req) = Inr url \<and>
       (\<forall>n u k ev. post_outcome env n u k ev = None)"
  proof -
    from that have v: "validate_callback_url env (callbackUrl req) = Inr url"
      and ok: "\<forall>n u k ev. post_outcome env n u k ev = None" by auto
    show ?thesis
      unfolding run_chatbot_ok[OF v ok]
      by (auto split: sum.splits option.splits)
  qed
  have c6: "validate_callback_url env (callbackUrl req) = Inr url \<and>
       (\<forall>n u k ev. is_done ev \<longrightarrow> post_outcome env n u k ev = None) \<longrightarrow>
         length (filter is_done (snd (run_chatbot env req))) = 1"
    using run_chatbot_terminal_posts by blast
  have c7: "validate_callback_url env (callbackUrl req) = Inr url \<and>
       run_body env req url \<lparr>attempts = 0, delivered = []\<rparr> = (Inr v, ch) \<longrightarrow>
         length (filter is_done (snd (run_chatbot env req))) = 1"
    using run_chatbot_body_ok by blast
  have c8: "validate_callback_url env (callbackUrl req) = Inr url \<and>
       run_body env req url \<lparr>attempts = 0, delivered = []\<rparr> = (Inl x, ch) \<longrightarrow>
         (length (filter is_done (snd (run_chatbot env req))) = 1 \<longleftrightarrow>
          post_outcome env (attempts ch) url (callbackKey req)
            (error_event (messageId req) (str_exn x)) = None)"
    using run_chatbot_body_raises by blast
  have c9: "validate_callback_url env (callbackUrl req) = Inl e \<longrightarrow> snd (run_chatbot env req) = []"
    by (simp add: run_chatbot_invalid)
  show ?thesis
    using props last c6 c7 c8 c9 by blast
qed

theorem callback_log_order_witness:
  "validate_callback_url silent_env (callbackUrl sample_request) = Inr ''http://cb''
   \<and> snd (run_chatbot silent_env sample_request) =
        [chunk_event ''m1'' refusal_msg, done_event ''m1'']
   \<and> filter (\<lambda>ev. \<not> is_done ev) (snd (run_chatbot silent_env sample_request)) =
        map (chunk_event (messageId sample_request)) (emitted_chunks silent_env sample_request)
   \<and> length (filter is_done (snd (run_chatbot silent_env sample_request))) = 1
   \<and> 1 < length (snd (run_chatbot silent_env sample_request))
   \<and> is_done (snd (run_chatbot silent_env sample_request) ! 1)
   \<and> Suc 1 = length (snd (run_chatbot silent_env sample_request))
   \<and> snd (run_chatbot first_post_fails_env sample_request) = [error_event ''m1'' ''receiver down'']
   \<and> \<not> success (error_event ''m1'' ''receiver down'')
   \<and> is_done (error_event ''m1'' ''receiver down'')
   \<and> snd (run_chatbot chunks_refused_env sample_request) = [error_event ''m1'' ''receiver down'']
   \<and> length (filter is_done (snd (run_chatbot chunks_refused_env sample_request))) = 1
   \<and> run_body silent_env sample_request ''http://cb'' \<lparr>attempts = 0, delivered = []\<rparr> =
        (Inr (), \<lparr>attempts = 2,
                   delivered = [chunk_event ''m1'' refusal_msg, done_event ''m1'']\<rparr>)
   \<and> run_body first_post_fails_env sample_request ''http://cb'' \<lparr>attempts = 0, delivered = []\<rparr> =
        (Inl (RuntimeError ''receiver down''), \<lparr>attempts = 1, delivered = []\<rparr>)
   \<and> post_outcome first_post_fails_env 1 ''http://cb'' ''k''
        (error_event ''m1'' ''receiver down'') = None
   \<and> length (filter is_done (snd (run_chatbot first_post_fails_env sample_request))) = 1
   \<and> run_body unreachable_env sample_request ''http://cb'' \<lparr>attempts = 0, delivered = []\<rparr> =
        (Inl (RuntimeError ''receiver down''), \<lparr>attempts = 1, delivered = []\<rparr>)
   \<and> post_outcome unreachable_env 1 ''http://cb'' ''k''
        (error_event ''m1'' ''receiver down'') = Some (RuntimeError ''receiver down'')
   \<and> length (filter is_done (snd (run_chatbot unreachable_env sample_request))) \<noteq> 1
   \<and> validate_callback_url rejecting_env (callbackUrl sample_request) =
        Inl (RuntimeError ''invalid callback url'')
   \<and> snd (run_chatbot rejecting_env sample_request) = []"
proof -
  let ?ch0 = "\<lparr>attempts = 0, delivered = []\<rparr>"
  have v: "validate_callback_url silent_env (callbackUrl sample_request) = Inr ''http://cb''"
    and vf: "validate_callback_url first_post_fails_env (callbackUrl sample_request) = Inr ''http://cb''"
    and vc: "validate_callback_url chunks_refused_env (callbackUrl sample_request) = Inr ''http://cb''"
    and vu: "validate_callback_url unreachable_env (callbackUrl sample_request) = Inr ''http://cb''"
    and vr: "validate_callback_url rejecting_env (callbackUrl sample_request) =
        Inl (RuntimeError ''invalid callback url'')"
    by (simp_all add: silent_env_def first_post_fails_env_def chunks_refused_env_def
        unreachable_env_def rejecting_env_def sample_request_def)
  have ok: "\<forall>n u k ev. post_outcome silent_env n u k ev = None"
    by (simp add: silent_env_def)
  have okc: "\<forall>n u k ev. is_done ev \<longrightarrow> post_outcome chunks_refused_env n u k ev = None"
    by (simp add: chunks_refused_env_def)
  have km: "callbackKey sample_request = ''k''" "messageId sample_request = ''m1''"
    by (simp_all add: sample_request_def)
  have l1: "snd (run_chatbot silent_env sample_request) =
        [chunk_event ''m1'' refusal_msg, done_event ''m1'']"
    by code_simp
  have l2: "snd (run_chatbot first_post_fails_env sample_request) =
        [error_event ''m1'' ''receiver down'']"
    by code_simp
  have l3: "snd (run_chatbot chunks_refused_env sample_request) =
        [error_event ''m1'' ''receiver down'']"
    by code_simp
  have b1: "run_body silent_env sample_request ''http://cb'' ?ch0 =
        (Inr (), \<lparr>attempts = 2,
                   delivered = [chunk_event ''m1'' refusal_msg, done_event ''m1'']\<rparr>)"
    by code_simp
  have b2: "run_body first_post_fails_env sample_request ''http://cb'' ?ch0 =
        (Inl (RuntimeError ''receiver down''), \<lparr>attempts = 1, delivered = []\<rparr>)"
    by code_simp
  have b3: "run_body unreachable_env sample_request ''http://cb'' ?ch0 =
        (Inl (RuntimeError ''receiver down''), \<lparr>attempts = 1, delivered = []\<rparr>)"
    by code_simp
  have p2: "post_outcome first_post_fails_env 1 ''http://cb'' ''k''
        (error_event ''m1'' ''receiver down'') = None"
    by (simp add: first_post_fails_env_def)
  have p3: "post_outcome unreachable_env 1 ''http://cb'' ''k''
        (error_event ''m1'' ''receiver down'') = Some (RuntimeError ''receiver down'')"
    by (simp add: unreachable_env_def)
  note t1 = callback_log_order [where env = silent_env and req = sample_request
      and url = "''http://cb''" and v = "()"
      and ch = "\<lparr>attempts = 2,
                 delivered = [chunk_event ''m1'' refusal_msg, done_event ''m1'']\<rparr>"]
  note t2 = callback_log_order [where env = first_post_fails_env and req = sample_request
      and url = "''http://cb''" and x = "RuntimeError ''receiver down''"
      and ch = "\<lparr>attempts = 1, delivered = []\<rparr>"]
  note t3 = callback_log_order [where env = chunks_refused_env and req = sample_request
      and url = "''http://cb''"]
  note t4 = callback_log_order [where env = unreachable_env and req = sample_request
      and url = "''http://cb''" and x = "RuntimeError ''receiver down''"
      and ch = "\<lparr>attempts = 1, delivered = []\<rparr>"]
  note t5 = callback_log_order [where env = rejecting_env and req = sample_request
      and e = "RuntimeError ''invalid callback url''"]
  from t1 v ok have a: "filter (\<lambda>ev. \<not> is_done ev) (snd (run_chatbot silent_env sample_request)) =
        map (chunk_event (messageId sample_request)) (emitted_chunks silent_env sample_request)"
    by blast
  from t1 v b1 have a1: "length (filter is_done (snd (run_chatbot silent_env sample_request))) = 1"
    by blast
  have b: "1 < length (snd (run_chatbot silent_env sample_request))
      \<and> is_done (snd (run_chatbot silent_env sample_request) ! 1)"
    by (simp add: l1 done_event_def)
  with t1 have c: "Suc 1 = length (snd (run_chatbot silent_env sample_request))"
    by blast
  have ns: "\<not> success (error_event ''m1'' ''receiver down'')"
    by (simp add: error_event_def)
  have mem: "error_event ''m1'' ''receiver down'' \<in>
      set (snd (run_chatbot first_post_fails_env sample_request))"
    by (simp add: l2)
  from t2 mem ns have d: "is_done (error_event ''m1'' ''receiver down'')"
    by blast
  from t3 vc okc
  have e3: "length (filter is_done (snd (run_chatbot chunks_refused_env sample_request))) = 1"
    by blast
  from t2 vf b2 p2
  have e2: "length (filter is_done (snd (run_chatbot first_post_fails_env sample_request))) = 1"
    by (simp add: km)
  from t4 vu b3 p3
  have e4: "length (filter is_done (snd (run_chatbot unreachable_env sample_request))) \<noteq> 1"
    by (simp add: km)
  from t5 vr have e5: "snd (run_chatbot rejecting_env sample_request) = []"
    by blast
  show ?thesis
    using v l1 a a1 b c l2 ns d l3 e3 b1 b2 p2 e2 b3 p3 e4 vr e5 by blast
qed

text \<open>
  No terminal event at all: a callback URL that does not validate ends the call before
  the \<open>try\<close> block, and a receiver that refuses every post gets neither the events of
  the body nor the error event.
\<close>

theorem no_terminal_counterexample:
  "run_chatbot rejecting_env sample_request = (Inl (RuntimeError ''invalid callback url''), [])
   \<and> filter is_done (snd (run_chatbot unreachable_env sample_request)) = []"
  by (intro conjI; code_simp)

section \<open>The early exit\<close>

lemma tools_indep:
  "get_my_todos (env\<lparr>stream_completion := f, full_completion := g\<rparr>) = get_my_todos env"
  "get_my_mails (env\<lparr>stream_completion := f, full_completion := g\<rparr>) = get_my_mails env"
  "get_my_attendance (env\<lparr>stream_completion := f, full_completion := g\<rparr>) = get_my_attendance env"
  "get_meetings_for_me (env\<lparr>stream_completion := f, full_completion := g\<rparr>) = get_meetings_for_me env"
  "get_meeting_room_reservations (env\<lparr>stream_completion := f, full_completion := g\<rparr>) =
     get_meeting_room_reservations env"
  "get_corporate_car_reservations (env\<lparr>stream_completion := f, full_completion := g\<rparr>) =
     get_corporate_car_reservations env"
  "get_shared_equipment_reservations (env\<lparr>stream_completion := f, full_completion := g\<rparr>) =
     get_shared_equipment_reservations env"
  "search_employee_by_name (env\<lparr>stream_completion := f, full_completion := g\<rparr>) =
     search_employee_by_name env"
  "get_employee_contact (env\<lparr>stream_completion := f, full_completion := g\<rparr>) =
     get_employee_contact env"
  "search_board_posts (env\<lparr>stream_completion := f, full_completion := g\<rparr>) = search_board_posts env"
  "get_approval_lines (env\<lparr>stream_completion := f, full_completion := g\<rparr>) = get_approval_lines env"
  by (intro ext, simp add: tool_defs Let_def cong: sum.case_cong)+

lemma call_tool_indep:
  "call_tool (env\<lparr>stream_completion := f, full_completion := g\<rparr>) fn a = call_tool env fn a"
  unfolding call_tool_def tools_indep ..

lemma execute_loop_indep:
  "execute_loop (env\<lparr>stream_completion := f, full_completion := g\<rparr>) c e ts acc =
   execute_loop env c e ts acc"
proof (induction ts arbitrary: acc)
  case Nil
  show ?case by simp
next
  case (Cons t ts)
  obtain R S where acc: "acc = (R, S)" by (cases acc)
  show ?case unfolding acc
    by (simp add: call_tool_indep Cons.IH split: option.splits sum.splits)
qed

lemma rag_loop_indep:
  "rag_loop (env\<lparr>stream_completion := f, full_completion := g\<rparr>) ts acc = rag_loop env ts acc"
  by (induction ts arbitrary: acc) (simp_all split: sum.splits)

lemma evidence_indep:
  "evidence (env\<lparr>stream_completion := f, full_completion := g\<rparr>) req = evidence env req"
  by (simp add: evidence_def plan_query_def gather_def execute_rdb_tasks_def execute_loop_indep
      run_rag_tasks_def rag_loop_indep cong: sum.case_cong if_cong)

text \<open>
  C5, as the code has it. When the formatted relational text and the joined semantic
  text are both empty, the callback URL validates and the first two posts do not raise,
  the events delivered are exactly two: the refusal chunk with \<open>done = false\<close>,
  \<open>success = true\<close>, then the terminal event with \<open>done = true\<close>, \<open>success = true\<close>.
  Synthesis is skipped: the outcome is the same whatever the two completions of the
  answering model are.
\<close>

theorem early_exit:
  "evidence env req = Inr (plan, [], [])
   \<and> validate_callback_url env (callbackUrl req) = Inr url
   \<and> post_outcome env 0 url (callbackKey req) (chunk_event (messageId req) refusal_msg) = None
   \<and> post_outcome env 1 url (callbackKey req) (done_event (messageId req)) = None \<longrightarrow>
     run_chatbot env req =
       (Inr (),
        [\<lparr>msg_id = messageId req, chunk = Some refusal_msg, is_done = False, success = True,
          errorMessage = None\<rparr>,
         \<lparr>msg_id = messageId req, chunk = None, is_done = True, success = True,
          errorMessage = None\<rparr>])
   \<and> run_chatbot (env\<lparr>stream_completion := f, full_completion := g\<rparr>) req = run_chatbot env req"
proof (intro impI)
  assume h: "evidence env req = Inr (plan, [], [])
   \<and> validate_callback_url env (callbackUrl req) = Inr url
   \<and> post_outcome env 0 url (callbackKey req) (chunk_event (messageId req) refusal_msg) = None
   \<and> post_outcome env 1 url (callbackKey req) (done_event (messageId req)) = None"
  have run: "run_chatbot env' req =
       (Inr (), [chunk_event (messageId req) refusal_msg, done_event (messageId req)])"
    if "evidence env' req = Inr (plan, [], [])"
      "validate_callback_url env' (callbackUrl req) = Inr url"
      "post_outcome env' 0 url (callbackKey req) (chunk_event (messageId req) refusal_msg) = None"
      "post_outcome env' 1 url (callbackKey req) (done_event (messageId req)) = None"
    for env'
    using that by (simp add: run_chatbot_def run_body_def post_with_retry_def)
  have a: "run_chatbot env req =
       (Inr (), [chunk_event (messageId req) refusal_msg, done_event (messageId req)])"
    using h by (intro run) auto
  have b: "run_chatbot (env\<lparr>stream_completion := f, full_completion := g\<rparr>) req =
       (Inr (), [chunk_event (messageId req) refusal_msg, done_event (messageId req)])"
    using h by (intro run) (auto simp: evidence_indep)
  show "run_chatbot env req =
       (Inr (),
        [\<lparr>msg_id = messageId req, chunk = Some refusal_msg, is_done = False, success = True,
          errorMessage = None\<rparr>,
         \<lparr>msg_id = messageId req, chunk = None, is_done = True, success = True,
          errorMessage = None\<rparr>])
   \<and> run_chatbot (env\<lparr>stream_completion := f, full_completion := g\<rparr>) req = run_chatbot env req"
    using a b by (simp add: chunk_event_def done_event_def)
qed


theorem early_exit_witness:
  "evidence silent_env sample_request = Inr (default_plan ''q'', [], [])
   \<and> validate_callback_url silent_env (callbackUrl sample_request) = Inr ''http://cb''
   \<and> post_outcome silent_env 0 ''http://cb'' (callbackKey sample_request)
         (chunk_event (messageId sample_request) refusal_msg) = None
   \<and> post_outcome silent_env 1 ''http://cb'' (callbackKey sample_request)
         (done_event (messageId sample_request)) = None
   \<and> run_chatbot silent_env sample_request =
       (Inr (),
        [\<lparr>msg_id = ''m1'', chunk = Some refusal_msg, is_done = False, success = True,
          errorMessage = None\<rparr>,
         \<lparr>msg_id = ''m1'', chunk = None, is_done = True, success = True,
          errorMessage = None\<rparr>])
   \<and> run_chatbot (silent_env\<lparr>stream_completion := (\<lambda>p. Inr ([Some ''x''], None)),
                               full_completion := (\<lambda>p. Inr (Some ''y''))\<rparr>) sample_request =
       run_chatbot silent_env sample_request"
proof -
  have e: "evidence silent_env sample_request = Inr (default_plan ''q'', [], [])"
    by code_simp
  have v: "validate_callback_url silent_env (callbackUrl sample_request) = Inr ''http://cb''"
    by (simp add: silent_env_def sample_request_def)
  have p0: "post_outcome silent_env 0 ''http://cb'' (callbackKey sample_request)
         (chunk_event (messageId sample_request) refusal_msg) = None"
    and p1: "post_outcome silent_env 1 ''http://cb'' (callbackKey sample_request)
         (done_event (messageId sample_request)) = None"
    by (simp_all add: silent_env_def)
  have m: "messageId sample_request = ''m1''" by (simp add: sample_request_def)
  from early_exit [where env = silent_env and req = sample_request and plan = "default_plan ''q''"
      and url = "''http://cb''" and f = "\<lambda>p. Inr ([Some ''x''], None)"
      and g = "\<lambda>p. Inr (Some ''y'')"] e v p0 p1
  show ?thesis by (simp add: m)
qed

text \<open>
  With both texts empty and a receiver that refuses the first post, the refusal chunk
  is not delivered and the only event is the error event.
\<close>

theorem early_exit_counterexample:
  "evidence first_post_fails_env sample_request = Inr (default_plan ''q'', [], [])
   \<and> run_chatbot first_post_fails_env sample_request =
       (Inr (),
        [\<lparr>msg_id = ''m1'', chunk = None, is_done = True, success = False,
          errorMessage = Some ''receiver down''\<rparr>])"
  by (intro conjI; code_simp)

section \<open>A stream that raises\<close>

text \<open>
  C6, as the code has it. The non-streaming call is made when the streaming call fails
  to establish and also when the stream raises in mid-stream. For a request whose
  callback URL validates and whose posts all return: when the stream raises after the
  deltas it has yielded were delivered and the non-streaming call raises too, the
  orchestrator delivers the terminal event with \<open>success = false\<close> and the message of
  that exception, and no chunk after the deltas; when the non-streaming call returns,
  its paragraphs are delivered as further chunks and the terminal event has
  \<open>success = true\<close>.
\<close>

theorem midstream_fallback:
  "(evidence env req = Inr (plan, db_text, rag_text)
   \<and> \<not> (db_text = [] \<and> rag_text = [])
   \<and> validate_callback_url env (callbackUrl req) = Inr url
   \<and> (\<forall>n u k ev. post_outcome env n u k ev = None)
   \<and> stream_completion env
         (user_prompt (question req) (history req) db_text rag_text (answer_style plan)) =
       Inr (deltas, Some x) \<longrightarrow>
     (full_completion env
         (user_prompt (question req) (history req) db_text rag_text (answer_style plan)) = Inl y \<longrightarrow>
        run_chatbot env req =
          (Inr (),
           map (chunk_event (messageId req)) (yielded deltas) @
           [\<lparr>msg_id = messageId req, chunk = None, is_done = True, success = False,
             errorMessage = Some (str_exn y)\<rparr>]))
   \<and> (full_completion env
         (user_prompt (question req) (history req) db_text rag_text (answer_style plan)) = Inr c \<longrightarrow>
        run_chatbot env req =
          (Inr (),
           map (chunk_event (messageId req))
             (yielded deltas @ paragraphs (case c of None \<Rightarrow> [] | Some full \<Rightarrow> full)) @
           [\<lparr>msg_id = messageId req, chunk = None, is_done = True, success = True,
             errorMessage = None\<rparr>])))
   \<and> (stream_completion env (user_prompt q hs d r s) = Inl z \<longrightarrow>
        stream_final_answer env q hs d r s md = fallback_answer env (user_prompt q hs d r s))"
proof (intro impI conjI)
  let ?p = "user_prompt (question req) (history req) db_text rag_text (answer_style plan)"
  assume h: "evidence env req = Inr (plan, db_text, rag_text)
   \<and> \<not> (db_text = [] \<and> rag_text = [])
   \<and> validate_callback_url env (callbackUrl req) = Inr url
   \<and> (\<forall>n u k ev. post_outcome env n u k ev = None)
   \<and> stream_completion env ?p = Inr (deltas, Some x)"
  then have ev: "evidence env req = Inr (plan, db_text, rag_text)"
    and ne: "(db_text = [] \<and> rag_text = []) = False"
    and v: "validate_callback_url env (callbackUrl req) = Inr url"
    and ok: "\<forall>n u k ev. post_outcome env n u k ev = None"
    and st: "stream_completion env ?p = Inr (deltas, Some x)" by auto
  note run = run_chatbot_ok[OF v ok]
  {
    assume f: "full_completion env ?p = Inl y"
    have sfa: "stream_final_answer env (question req) (history req) db_text rag_text
                 (answer_style plan) (mode plan) = (yielded deltas, Some y)"
      by (simp add: stream_final_answer_def st fallback_answer_def f)
    show "run_chatbot env req =
          (Inr (),
           map (chunk_event (messageId req)) (yielded deltas) @
           [\<lparr>msg_id = messageId req, chunk = None, is_done = True, success = False,
             errorMessage = Some (str_exn y)\<rparr>])"
      by (simp add: run emitted_chunks_def ev sfa error_event_def ne)
  }
  {
    assume f: "full_completion env ?p = Inr c"
    have sfa: "stream_final_answer env (question req) (history req) db_text rag_text
                 (answer_style plan) (mode plan) =
               (yielded deltas @ paragraphs (case c of None \<Rightarrow> [] | Some full \<Rightarrow> full), None)"
      by (simp add: stream_final_answer_def st fallback_answer_def f)
    show "run_chatbot env req =
          (Inr (),
           map (chunk_event (messageId req))
             (yielded deltas @ paragraphs (case c of None \<Rightarrow> [] | Some full \<Rightarrow> full)) @
           [\<lparr>msg_id = messageId req, chunk = None, is_done = True, success = True,
             errorMessage = None\<rparr>])"
      by (simp add: run emitted_chunks_def ev sfa done_event_def ne)
  }
next
  assume "stream_completion env (user_prompt q hs d r s) = Inl z"
  then show "stream_final_answer env q hs d r s md = fallback_answer env (user_prompt q hs d r s)"
    by (simp add: stream_final_answer_def)
qed

text \<open>
  A stream that raises after two deltas, with a plain completion that answers: a third
  chunk follows the two, and the terminal event reports success.
\<close>

theorem midstream_fallback_counterexample:
  "run_chatbot broken_stream_env sample_request =
     (Inr (),
      [\<lparr>msg_id = ''m1'', chunk = Some ''a'', is_done = False, success = True, errorMessage = None\<rparr>,
       \<lparr>msg_id = ''m1'', chunk = Some ''b'', is_done = False, success = True, errorMessage = None\<rparr>,
       \<lparr>msg_id = ''m1'', chunk = Some (''full answer'' @ nl), is_done = False, success = True,
         errorMessage = None\<rparr>,
       \<lparr>msg_id = ''m1'', chunk = None, is_done = True, success = True, errorMessage = None\<rparr>])"
  by code_simp

theorem midstream_fallback_witness:
  "evidence broken_stream_env sample_request = Inr (default_plan ''q'', [], ''ctx'')
   \<and> validate_callback_url broken_stream_env (callbackUrl sample_request) = Inr ''http://cb''
   \<and> stream_completion broken_stream_env
         (user_prompt (question sample_request) (history sample_request) [] ''ctx''
            (answer_style (default_plan ''q''))) =
       Inr ([Some ''a'', None, Some ''b''], Some (RuntimeError ''stream broke''))
   \<and> run_chatbot broken_stream_env sample_request =
       (Inr (),
        map (chunk_event ''m1'') ([''a'', ''b''] @ [''full answer'' @ nl]) @
        [\<lparr>msg_id = ''m1'', chunk = None, is_done = True, success = True, errorMessage = None\<rparr>])
   \<and> run_chatbot
         (broken_stream_env\<lparr>full_completion := (\<lambda>p. Inl (RuntimeError ''model down''))\<rparr>)
         sample_request =
       (Inr (),
        map (chunk_event ''m1'') [''a'', ''b''] @
        [\<lparr>msg_id = ''m1'', chunk = None, is_done = True, success = False,
          errorMessage = Some ''model down''\<rparr>])
   \<and> stream_completion
         (silent_env\<lparr>stream_completion := (\<lambda>p. Inl (RuntimeError ''no stream''))\<rparr>)
         (user_prompt ''q'' [] [] ''ctx'' None) = Inl (RuntimeError ''no stream'')
   \<and> stream_final_answer
         (silent_env\<lparr>stream_completion := (\<lambda>p. Inl (RuntimeError ''no stream''))\<rparr>)
         ''q'' [] [] ''ctx'' None Rag =
       fallback_answer
         (silent_env\<lparr>stream_completion := (\<lambda>p. Inl (RuntimeError ''no stream''))\<rparr>)
         (user_prompt ''q'' [] [] ''ctx'' None)"
proof -
  let ?env3 = "silent_env\<lparr>stream_completion := (\<lambda>p. Inl (RuntimeError ''no stream''))\<rparr>"
  have s3: "stream_completion ?env3 (user_prompt ''q'' [] [] ''ctx'' None) =
      Inl (RuntimeError ''no stream'')" by simp
  from midstream_fallback [where env = ?env3 and q = "''q''" and hs = "[]" and d = "[]"
      and r = "''ctx''" and s = None and z = "RuntimeError ''no stream''" and md = Rag] s3
  have r3: "stream_final_answer ?env3 ''q'' [] [] ''ctx'' None Rag =
       fallback_answer ?env3 (user_prompt ''q'' [] [] ''ctx'' None)" by blast
  let ?env2 = "broken_stream_env\<lparr>full_completion := (\<lambda>p. Inl (RuntimeError ''model down''))\<rparr>"
  let ?p = "user_prompt (question sample_request) (history sample_request) [] ''ctx''
            (answer_style (default_plan ''q''))"
  have e1: "evidence broken_stream_env sample_request = Inr (default_plan ''q'', [], ''ctx'')"
    by code_simp
  have e2: "evidence ?env2 sample_request = Inr (default_plan ''q'', [], ''ctx'')"
    by code_simp
  have v1: "validate_callback_url broken_stream_env (callbackUrl sample_request) = Inr ''http://cb''"
    and v2: "validate_callback_url ?env2 (callbackUrl sample_request) = Inr ''http://cb''"
    by (simp_all add: broken_stream_env_def silent_env_def sample_request_def)
  have ok1: "\<forall>n u k ev. post_outcome broken_stream_env n u k ev = None"
    and ok2: "\<forall>n u k ev. post_outcome ?env2 n u k ev = None"
    by (simp_all add: broken_stream_env_def silent_env_def)
  have s1: "stream_completion broken_stream_env ?p =
       Inr ([Some ''a'', None, Some ''b''], Some (RuntimeError ''stream broke''))"
    and s2: "stream_completion ?env2 ?p =
       Inr ([Some ''a'', None, Some ''b''], Some (RuntimeError ''stream broke''))"
    by (simp_all add: broken_stream_env_def)
  have f1: "full_completion broken_stream_env ?p = Inr (Some ''full answer'')"
    and f2: "full_completion ?env2 ?p = Inl (RuntimeError ''model down'')"
    by (simp_all add: broken_stream_env_def)
  have y: "yielded [Some ''a'', None, Some ''b''] = [''a'', ''b'']"
    by (simp add: yielded_def)
  have pg: "paragraphs ''full answer'' = [''full answer'' @ nl]"
    by code_simp
  have m: "messageId sample_request = ''m1''" by (simp add: sample_request_def)
  from midstream_fallback [where env = broken_stream_env and req = sample_request
      and plan = "default_plan ''q''" and db_text = "[]" and rag_text = "''ctx''"
      and url = "''http://cb''" and deltas = "[Some ''a'', None, Some ''b'']"
      and x = "RuntimeError ''stream broke''" and c = "Some ''full answer''"] e1 v1 ok1 s1 f1
  have r1: "run_chatbot broken_stream_env sample_request =
       (Inr (),
        map (chunk_event ''m1'') ([''a'', ''b''] @ [''full answer'' @ nl]) @
        [\<lparr>msg_id = ''m1'', chunk = None, is_done = True, success = True, errorMessage = None\<rparr>])"
    by (simp add: y pg m)
  from midstream_fallback [where env = ?env2 and req = sample_request
      and plan = "default_plan ''q''" and db_text = "[]" and rag_text = "''ctx''"
      and url = "''http://cb''" and deltas = "[Some ''a'', None, Some ''b'']"
      and x = "RuntimeError ''stream broke''" and y = "RuntimeError ''model down''"] e2 v2 ok2 s2 f2
  have r2: "run_chatbot ?env2 sample_request =
       (Inr (),
        map (chunk_event ''m1'') [''a'', ''b''] @
        [\<lparr>msg_id = ''m1'', chunk = None, is_done = True, success = False,
          errorMessage = Some ''model down''\<rparr>])"
    by (simp add: y m)
  show ?thesis using e1 v1 s1 r1 r2 s3 r3 by blast
qed

end
